theory Spec2Isabelle
  imports Main "HOL-Library.Word"
begin

section \<open>Runtime values and configuration\<close>

text \<open>
  An \<open>ArrayBuffer\<close> is a list of bytes. A JavaScript string is a \<open>string\<close>; a code point
  beyond ASCII is kept as its UTF-8 bytes. Exceptions thrown by the code or by the runtime
  are values of \<open>exn\<close>; a function that can throw returns \<open>exn + 'a\<close>, with \<open>Inl\<close> the
  thrown exception. \<open>NetworkError\<close> stands for the rejection of a write to a remote socket,
  and \<open>TypeError\<close> is what \<open>getWriter()\<close> throws on a writable side that is locked.
\<close>

type_synonym byte = "8 word"
type_synonym ArrayBuffer = "byte list"

datatype exn = RangeError | Error string | NetworkError | TypeError

text \<open>config.js\<close>

definition PROTOCOLS :: "string list" where
  "PROTOCOLS = [''trojan'', ''vless'', ''ss'']"

definition DNS_SERVER_ADDRESS :: string where
  "DNS_SERVER_ADDRESS = ''8.8.8.8''"

definition DNS_SERVER_PORT :: nat where
  "DNS_SERVER_PORT = 53"

definition WS_READY_STATE_OPEN :: nat where
  "WS_READY_STATE_OPEN = 1"

definition WS_READY_STATE_CLOSING :: nat where
  "WS_READY_STATE_CLOSING = 2"

subsection \<open>Built-ins of the runtime\<close>

text \<open>
  \<open>buffer.slice(b, e)\<close> and \<open>buffer.slice(b)\<close> for non-negative integers: both ends are
  clamped to the length of the buffer, and an end before the start gives the empty buffer.
\<close>

definition slice :: "'a list \<Rightarrow> nat \<Rightarrow> nat \<Rightarrow> 'a list" where
  "slice buffer b e = take (e - b) (drop b buffer)"

definition sliceFrom :: "'a list \<Rightarrow> nat \<Rightarrow> 'a list" where
  "sliceFrom buffer b = drop b buffer"

text \<open>Reading \<open>array[i]\<close> of a typed array: \<open>undefined\<close> (here \<open>None\<close>) out of range.\<close>

definition at :: "'a list \<Rightarrow> nat \<Rightarrow> 'a option" where
  "at array i = (if i < length array then Some (array ! i) else None)"

text \<open>\<open>DataView.getUint8\<close> and \<open>DataView.getUint16\<close> (big-endian) throw a RangeError out of range.\<close>

definition getUint8 :: "ArrayBuffer \<Rightarrow> nat \<Rightarrow> exn + byte" where
  "getUint8 view i = (if i < length view then Inr (view ! i) else Inl RangeError)"

definition getUint16 :: "ArrayBuffer \<Rightarrow> nat \<Rightarrow> exn + nat" where
  "getUint16 view i =
     (if i + 2 \<le> length view then Inr (unat (view ! i) * 256 + unat (view ! (i + 1)))
      else Inl RangeError)"

text \<open>\<open>Number.prototype.toString(radix)\<close> on a non-negative integer, radix 2 to 16.\<close>

fun toStringRadix :: "nat \<Rightarrow> nat \<Rightarrow> string" where
  "toStringRadix radix n =
     (if n < radix \<or> radix < 2 then [''0123456789abcdef'' ! n]
      else toStringRadix radix (n div radix) @ [''0123456789abcdef'' ! (n mod radix)])"

declare toStringRadix.simps [simp del]

definition padStart :: "nat \<Rightarrow> char \<Rightarrow> string \<Rightarrow> string" where
  "padStart n c s = replicate (n - length s) c @ s"

fun join :: "string \<Rightarrow> string list \<Rightarrow> string" where
  "join sep [] = []"
| "join sep [x] = x"
| "join sep (x # y # ys) = x @ sep @ join sep (y # ys)"

text \<open>A number or \<open>undefined\<close> inside a template literal.\<close>

definition template :: "byte option \<Rightarrow> string" where
  "template v = (case v of None \<Rightarrow> ''undefined'' | Some b \<Rightarrow> toStringRadix 10 (unat b))"

text \<open>
  An index that is \<open>NaN\<close> (a sum with \<open>undefined\<close>, here \<open>None\<close>) is read as 0 by \<open>slice\<close>.
\<close>

definition nanIndex :: "nat option \<Rightarrow> nat" where
  "nanIndex i = (case i of None \<Rightarrow> 0 | Some n \<Rightarrow> n)"

text \<open>
  \<open>new TextDecoder().decode(buffer)\<close>: the UTF-8 decoder of the Encoding Standard. A
  well-formed sequence is kept, every maximal ill-formed part becomes U+FFFD (bytes
  EF BF BD in the representation of strings used here), and a byte order mark at the
  start is dropped.
\<close>

definition REPLACEMENT :: "byte list" where
  "REPLACEMENT = [0xEF, 0xBF, 0xBD]"

fun utf8 :: "byte list \<Rightarrow> byte list" where
  "utf8 [] = []"
| "utf8 (b # bs) =
     (if b \<le> 0x7F then b # utf8 bs
      else if 0xC2 \<le> b \<and> b \<le> 0xDF then
        (case bs of
           [] \<Rightarrow> REPLACEMENT
         | c1 # r1 \<Rightarrow>
             if 0x80 \<le> c1 \<and> c1 \<le> 0xBF then b # c1 # utf8 r1 else REPLACEMENT @ utf8 bs)
      else if 0xE0 \<le> b \<and> b \<le> 0xEF then
        (case bs of
           [] \<Rightarrow> REPLACEMENT
         | c1 # r1 \<Rightarrow>
             if (if b = 0xE0 then 0xA0 else 0x80) \<le> c1 \<and> c1 \<le> (if b = 0xED then 0x9F else 0xBF)
             then (case r1 of
                     [] \<Rightarrow> REPLACEMENT
                   | c2 # r2 \<Rightarrow>
                       if 0x80 \<le> c2 \<and> c2 \<le> 0xBF then b # c1 # c2 # utf8 r2
                       else REPLACEMENT @ utf8 r1)
             else REPLACEMENT @ utf8 bs)
      else if 0xF0 \<le> b \<and> b \<le> 0xF4 then
        (case bs of
           [] \<Rightarrow> REPLACEMENT
         | c1 # r1 \<Rightarrow>
             if (if b = 0xF0 then 0x90 else 0x80) \<le> c1 \<and> c1 \<le> (if b = 0xF4 then 0x8F else 0xBF)
             then (case r1 of
                     [] \<Rightarrow> REPLACEMENT
                   | c2 # r2 \<Rightarrow>
                       if 0x80 \<le> c2 \<and> c2 \<le> 0xBF
                       then (case r2 of
                               [] \<Rightarrow> REPLACEMENT
                             | c3 # r3 \<Rightarrow>
                                 if 0x80 \<le> c3 \<and> c3 \<le> 0xBF then b # c1 # c2 # c3 # utf8 r3
                                 else REPLACEMENT @ utf8 r2)
                       else REPLACEMENT @ utf8 r1)
             else REPLACEMENT @ utf8 bs)
      else REPLACEMENT @ utf8 bs)"

definition stripBOM :: "byte list \<Rightarrow> byte list" where
  "stripBOM bs = (if take 3 bs = [0xEF, 0xBB, 0xBF] then drop 3 bs else bs)"

definition TextDecoder_decode :: "ArrayBuffer \<Rightarrow> string" where
  "TextDecoder_decode buffer = map (\<lambda>b. char_of (unat b)) (utf8 (stripBOM buffer))"

text \<open>
  \<open>regex.test(s)\<close> for an anchored pattern that is a sequence of character classes, each
  repeated a fixed number of times: \<open>(cls, n)\<close> stands for \<open>[cls]{n}\<close>.
\<close>

fun regexTest :: "(string \<times> nat) list \<Rightarrow> string \<Rightarrow> bool" where
  "regexTest [] s = (s = [])"
| "regexTest ((cls, n) # ps) s =
     (n \<le> length s \<and> list_all (\<lambda>c. c \<in> set cls) (take n s) \<and> regexTest ps (drop n s))"

section \<open>utils.js\<close>

definition arrayBufferToHex :: "ArrayBuffer \<Rightarrow> string" where
  "arrayBufferToHex buffer =
     join [] (map (\<lambda>x. padStart 2 (CHR ''0'') (toStringRadix 16 (unat x))) buffer)"

section \<open>protocols.js\<close>

subsection \<open>protocolSniffer\<close>

text \<open>
  The pattern
  \<^verbatim>\<open>/^[0-9a-f]{8}-[0-9a-f]{4}-4[0-9a-f]{3}-[89ab][0-9a-f]{3}-[0-9a-f]{12}$/i\<close>;
  the flag \<open>i\<close> adds the upper-case letters to each class.
\<close>

definition hexClass :: string where
  "hexClass = ''0123456789abcdefABCDEF''"

definition uuidV4Pattern :: "(string \<times> nat) list" where
  "uuidV4Pattern =
     [(hexClass, 8), (''-'', 1), (hexClass, 4), (''-'', 1), (''4'', 1), (hexClass, 3),
      (''-'', 1), (''89abAB'', 1), (hexClass, 3), (''-'', 1), (hexClass, 12)]"

definition horseTest :: "ArrayBuffer \<Rightarrow> bool" where
  "horseTest buffer =
     (length buffer \<ge> 62 \<and>
      (let horseDelimiter = slice buffer 56 60 in
       (at horseDelimiter 0 = Some 0x0d \<and> at horseDelimiter 1 = Some 0x0a) \<and>
       (at horseDelimiter 2 = Some 0x01 \<or> at horseDelimiter 2 = Some 0x03 \<or>
        at horseDelimiter 2 = Some 0x7f) \<and>
       (at horseDelimiter 3 = Some 0x01 \<or> at horseDelimiter 3 = Some 0x03 \<or>
        at horseDelimiter 3 = Some 0x04)))"

definition flashTest :: "ArrayBuffer \<Rightarrow> bool" where
  "flashTest buffer =
     (let flashDelimiter = slice buffer 1 17 in
      regexTest uuidV4Pattern (arrayBufferToHex flashDelimiter))"

definition protocolSniffer :: "ArrayBuffer \<Rightarrow> string" where
  "protocolSniffer buffer =
     (if horseTest buffer then PROTOCOLS ! 0
      else if flashTest buffer then PROTOCOLS ! 1
      else PROTOCOLS ! 2)"

subsection \<open>The parsed header\<close>

text \<open>
  The object a decoder returns: \<open>{hasError: true, message}\<close> is \<open>HasError message\<close>, and
  \<open>{hasError: false, ...}\<close> is \<open>Header\<close> of the record of its fields. A field the decoder does
  not set (\<open>undefined\<close>) is \<open>None\<close>.
\<close>

record protocolHeader =
  addressRemote :: string
  addressType :: "byte option"
  portRemote :: nat
  rawClientData :: ArrayBuffer
  version :: "ArrayBuffer option"
  isUDP :: bool

datatype parsed = HasError string | Header protocolHeader

text \<open>The loop \<open>for (let i = 0; i < 8; i++) ipv6.push(dataView.getUint16(i * 2).toString(16))\<close>.\<close>

function ipv6Loop :: "ArrayBuffer \<Rightarrow> nat \<Rightarrow> string list \<Rightarrow> exn + string list" where
  "ipv6Loop dataView i ipv6 =
     (if i < 8 then
        (case getUint16 dataView (i * 2) of
           Inl e \<Rightarrow> Inl e
         | Inr g \<Rightarrow> ipv6Loop dataView (i + 1) (ipv6 @ [toStringRadix 16 g]))
      else Inr ipv6)"
  by pat_completeness auto
termination
  by (relation "measure (\<lambda>(dataView, i, ipv6). 8 - i)") auto

declare ipv6Loop.simps [simp del]

definition dotted :: "ArrayBuffer \<Rightarrow> string" where
  "dotted bytes = join ''.'' (map (\<lambda>b. toStringRadix 10 (unat b)) bytes)"

subsection \<open>readSsHeader\<close>

text \<open>The code after the \<open>switch\<close>: the empty-address check, the port and the result.\<close>

definition ssReturn ::
  "ArrayBuffer \<Rightarrow> byte \<Rightarrow> nat option \<Rightarrow> nat \<Rightarrow> string \<Rightarrow> exn + parsed" where
  "ssReturn ssBuffer addressType' addressLength addressValueIndex addressValue =
     (if addressValue = [] then
        Inr (HasError (''Destination address empty for SS, address type: '' @
                       template (Some addressType')))
      else
        (let portIndex = map_option (\<lambda>l. addressValueIndex + l) addressLength in
         case getUint16 (slice ssBuffer (nanIndex portIndex)
                           (nanIndex (map_option (\<lambda>p. p + 2) portIndex))) 0 of
           Inl e \<Rightarrow> Inl e
         | Inr portRemote' \<Rightarrow>
             Inr (Header \<lparr>addressRemote = addressValue,
                          addressType = Some addressType',
                          portRemote = portRemote',
                          rawClientData =
                            sliceFrom ssBuffer (nanIndex (map_option (\<lambda>p. p + 2) portIndex)),
                          version = None,
                          isUDP = (portRemote' = 53)\<rparr>)))"

definition readSsHeader :: "ArrayBuffer \<Rightarrow> exn + parsed" where
  "readSsHeader ssBuffer =
     (case getUint8 ssBuffer 0 of
        Inl e \<Rightarrow> Inl e
      | Inr addressType' \<Rightarrow>
          (let addressValueIndex = 1 in
           if addressType' = 1 then
             ssReturn ssBuffer addressType' (Some 4) addressValueIndex
               (dotted (slice ssBuffer addressValueIndex (addressValueIndex + 4)))
           else if addressType' = 3 then
             (let addressLength =
                    map_option unat
                      (at (slice ssBuffer addressValueIndex (addressValueIndex + 1)) 0);
                  addressValueIndex = addressValueIndex + 1
              in ssReturn ssBuffer addressType' addressLength addressValueIndex
                   (TextDecoder_decode
                      (slice ssBuffer addressValueIndex
                         (nanIndex (map_option (\<lambda>l. addressValueIndex + l) addressLength)))))
           else if addressType' = 4 then
             (case ipv6Loop (slice ssBuffer addressValueIndex (addressValueIndex + 16)) 0 [] of
                Inl e \<Rightarrow> Inl e
              | Inr ipv6 \<Rightarrow>
                  ssReturn ssBuffer addressType' (Some 16) addressValueIndex (join '':'' ipv6))
           else
             Inr (HasError (''Invalid addressType for SS: '' @ template (Some addressType')))))"

subsection \<open>readFlashHeader\<close>

text \<open>The code after the \<open>switch\<close>: the empty-address check and the result.\<close>

definition flashReturn ::
  "ArrayBuffer \<Rightarrow> ArrayBuffer \<Rightarrow> byte option \<Rightarrow> bool \<Rightarrow> nat \<Rightarrow> nat option \<Rightarrow> nat \<Rightarrow> string
     \<Rightarrow> parsed" where
  "flashReturn buffer version' addressType' isUDP' portRemote' addressLength addressIndex
       addressValue =
     (if addressValue = [] then
        HasError (''Empty VLESS address, type: '' @ template addressType')
      else
        Header \<lparr>addressRemote = addressValue,
                addressType = addressType',
                portRemote = portRemote',
                rawClientData =
                  sliceFrom buffer (nanIndex (map_option (\<lambda>l. addressIndex + l) addressLength)),
                version = Some [case at version' 0 of None \<Rightarrow> 0 | Some v \<Rightarrow> v, 0],
                isUDP = isUDP'\<rparr>)"

text \<open>
  When \<open>optLength\<close> is \<open>undefined\<close>, \<open>18 + optLength\<close> is \<open>NaN\<close> and \<open>cmd\<close> is read from
  \<open>buffer.slice(NaN, NaN)\<close>, the empty buffer, so the decoder returns at the command check.
\<close>

definition readFlashHeader :: "ArrayBuffer \<Rightarrow> exn + parsed" where
  "readFlashHeader buffer =
     (let version' = slice buffer 0 1 in
      case at (slice buffer 17 18) 0 of
        None \<Rightarrow>
          Inr (HasError (''Unsupported VLESS command: '' @
                         template (at (slice buffer (nanIndex None) (nanIndex None)) 0)))
      | Some optLength' \<Rightarrow>
          (let optLength = unat optLength';
               cmd = at (slice buffer (18 + optLength) (18 + optLength + 1)) 0
           in
           if cmd \<noteq> Some 1 \<and> cmd \<noteq> Some 2 then
             Inr (HasError (''Unsupported VLESS command: '' @ template cmd))
           else
             (let isUDP' = (cmd = Some 2);
                  portIndex = 18 + optLength + 1
              in
              case getUint16 (slice buffer portIndex (portIndex + 2)) 0 of
                Inl e \<Rightarrow> Inl e
              | Inr portRemote' \<Rightarrow>
                  (let addressIndex = portIndex + 2;
                       addressType' = at (slice buffer addressIndex (addressIndex + 1)) 0;
                       addressIndex = addressIndex + 1
                   in
                   if addressType' = Some 1 then
                     Inr (flashReturn buffer version' addressType' isUDP' portRemote' (Some 4)
                            addressIndex
                            (dotted (slice buffer addressIndex (addressIndex + 4))))
                   else if addressType' = Some 2 then
                     (let addressLength =
                            map_option unat
                              (at (slice buffer addressIndex (addressIndex + 1)) 0);
                          addressIndex = addressIndex + 1
                      in Inr (flashReturn buffer version' addressType' isUDP' portRemote'
                                addressLength addressIndex
                                (TextDecoder_decode
                                   (slice buffer addressIndex
                                      (nanIndex
                                         (map_option (\<lambda>l. addressIndex + l) addressLength))))))
                   else if addressType' = Some 3 then
                     (case ipv6Loop (slice buffer addressIndex (addressIndex + 16)) 0 [] of
                        Inl e \<Rightarrow> Inl e
                      | Inr ipv6 \<Rightarrow>
                          Inr (flashReturn buffer version' addressType' isUDP' portRemote'
                                 (Some 16) addressIndex (''['' @ join '':'' ipv6 @ '']'')))
                   else
                     Inr (HasError (''Invalid VLESS addressType: '' @
                                    template addressType'))))))"

subsection \<open>readHorseHeader\<close>

definition horseReturn ::
  "ArrayBuffer \<Rightarrow> byte \<Rightarrow> bool \<Rightarrow> nat option \<Rightarrow> nat \<Rightarrow> string \<Rightarrow> exn + parsed" where
  "horseReturn dataBuffer addressType' isUDP' addressLength addressValueIndex addressValue =
     (if addressValue = [] then
        Inr (HasError (''Empty Trojan address, type: '' @ template (Some addressType')))
      else
        (let portIndex = map_option (\<lambda>l. addressValueIndex + l) addressLength in
         case getUint16 (slice dataBuffer (nanIndex portIndex)
                           (nanIndex (map_option (\<lambda>p. p + 2) portIndex))) 0 of
           Inl e \<Rightarrow> Inl e
         | Inr portRemote' \<Rightarrow>
             Inr (Header \<lparr>addressRemote = addressValue,
                          addressType = None,
                          portRemote = portRemote',
                          rawClientData =
                            sliceFrom dataBuffer
                              (nanIndex (map_option (\<lambda>p. p + 4) portIndex)),
                          version = None,
                          isUDP = isUDP'\<rparr>)))"

definition readHorseHeader :: "ArrayBuffer \<Rightarrow> exn + parsed" where
  "readHorseHeader buffer =
     (let dataBuffer = sliceFrom buffer 58 in
      if length dataBuffer < 6 then Inr (HasError ''Invalid Trojan request data'')
      else
        (case getUint8 dataBuffer 0 of
           Inl e \<Rightarrow> Inl e
         | Inr cmd \<Rightarrow>
             if cmd \<noteq> 3 \<and> cmd \<noteq> 1 then
               Inr (HasError (''Unsupported Trojan command: '' @ template (Some cmd)))
             else
               (let isUDP' = (cmd = 3) in
                case getUint8 dataBuffer 1 of
                  Inl e \<Rightarrow> Inl e
                | Inr addressType' \<Rightarrow>
                    (let addressValueIndex = 2 in
                     if addressType' = 1 then
                       horseReturn dataBuffer addressType' isUDP' (Some 4) addressValueIndex
                         (dotted (slice dataBuffer addressValueIndex (addressValueIndex + 4)))
                     else if addressType' = 3 then
                       (let addressLength =
                              map_option unat
                                (at (slice dataBuffer addressValueIndex
                                       (addressValueIndex + 1)) 0);
                            addressValueIndex = addressValueIndex + 1
                        in horseReturn dataBuffer addressType' isUDP' addressLength
                             addressValueIndex
                             (TextDecoder_decode
                                (slice dataBuffer addressValueIndex
                                   (nanIndex
                                      (map_option (\<lambda>l. addressValueIndex + l)
                                         addressLength)))))
                     else if addressType' = 4 then
                       (case ipv6Loop
                               (slice dataBuffer addressValueIndex (addressValueIndex + 16))
                               0 [] of
                          Inl e \<Rightarrow> Inl e
                        | Inr ipv6 \<Rightarrow>
                            horseReturn dataBuffer addressType' isUDP' (Some 16)
                              addressValueIndex (''['' @ join '':'' ipv6 @ '']''))
                     else
                       Inr (HasError (''Invalid Trojan addressType: '' @
                                      template (Some addressType')))))))"

section \<open>websocket.js\<close>

text \<open>
  The tunnel acts on two kinds of objects of the runtime, the WebSocket and the remote
  sockets. A function of this file is modelled by the list of calls it makes on them, in
  program order:
  \<^item> \<open>WsSend data\<close> is \<open>webSocket.send(data)\<close>, \<open>WsClose\<close> is \<open>socket.close()\<close> on the WebSocket;
  \<^item> \<open>Connect hostname port\<close> is \<open>connect({hostname, port})\<close>;
  \<^item> \<open>RemoteWrite hostname port data\<close> is \<open>writer.write(data)\<close> on the writer of the socket
    connected to that host and port, and \<open>RemoteClose hostname port\<close> is \<open>close()\<close> on that
    socket;
  \<^item> \<open>StreamError reason\<close> is \<open>controller.error(reason)\<close> on the sink of a pipe.

  What the outside does is an input: a remote socket is given by whether writing to it
  succeeds, the chunks its readable side delivers, and how that side ends. Every read of
  \<open>webSocket.readyState\<close> is an input as well: each delivered chunk comes with the
  ready-state at the time the sink's \<open>write\<close> runs, and \<open>settled\<close> is the ready-state once
  the pipe has ended.
\<close>

datatype port = PortNumber nat | PortString string

datatype effect =
    WsSend ArrayBuffer
  | WsClose
  | Connect string port
  | RemoteWrite string port ArrayBuffer
  | RemoteClose string port
  | StreamError string

datatype ending = Closed | Errored

record remote =
  writable :: bool
  readable :: "(nat \<times> ArrayBuffer) list"
  ending :: ending
  settled :: nat

subsection \<open>safeCloseWebSocket\<close>

text \<open>An exception of \<open>close\<close> is caught and logged.\<close>

definition safeCloseWebSocket :: "nat \<Rightarrow> effect list" where
  "safeCloseWebSocket readyState =
     (if readyState = WS_READY_STATE_OPEN \<or> readyState = WS_READY_STATE_CLOSING
      then [WsClose] else [])"

subsection \<open>remoteSocketToWS\<close>

text \<open>\<open>await new Blob([header, chunk]).arrayBuffer()\<close>\<close>

definition blob :: "ArrayBuffer \<Rightarrow> ArrayBuffer \<Rightarrow> ArrayBuffer" where
  "blob header chunk = header @ chunk"

text \<open>
  The \<open>write(chunk, controller)\<close> of the sink of the remote socket's readable side: the
  calls it makes, the value of \<open>header\<close> afterwards, and whether it has put the sink into
  the errored state. There is no \<open>return\<close> after \<open>controller.error\<close>: the \<open>if\<close> on \<open>header\<close>
  runs in either case.
\<close>

definition remoteSinkWrite ::
  "nat \<Rightarrow> ArrayBuffer option \<Rightarrow> ArrayBuffer \<Rightarrow> effect list \<times> ArrayBuffer option \<times> bool" where
  "remoteSinkWrite readyState header chunk =
     ((if readyState \<noteq> WS_READY_STATE_OPEN
       then [StreamError ''WebSocket is not open, maybe closed''] else []) @
      (case header of
         Some h \<Rightarrow> [WsSend (blob h chunk)]
       | None \<Rightarrow> [WsSend chunk]),
      None,
      readyState \<noteq> WS_READY_STATE_OPEN)"

text \<open>
  \<open>remoteSocket.readable.pipeTo(sink)\<close>: \<open>write\<close> runs once per chunk, in order, until the
  sink is errored. The pipe then cancels the readable side by itself; that is no call of
  this file and is not listed.
\<close>

fun remotePipe :: "ArrayBuffer option \<Rightarrow> (nat \<times> ArrayBuffer) list \<Rightarrow> effect list \<times> bool" where
  "remotePipe header [] = ([], False)"
| "remotePipe header ((readyState, chunk) # rest) =
     (case remoteSinkWrite readyState header chunk of
        (effects, header', errored) \<Rightarrow>
          if errored then (effects, True)
          else (case remotePipe header' rest of
                  (effects', errored') \<Rightarrow> (effects @ effects', errored')))"

text \<open>
  \<open>retry\<close> is \<open>None\<close> for \<open>null\<close> and otherwise the calls that \<open>retry()\<close> makes. The pipe
  rejects when the sink is errored or the readable side ends with an error; the
  \<open>catch\<close> then runs \<open>safeCloseWebSocket\<close>.
\<close>

definition remoteSocketToWS ::
  "remote \<Rightarrow> ArrayBuffer option \<Rightarrow> effect list option \<Rightarrow> effect list" where
  "remoteSocketToWS remoteSocket responseHeader retry =
     (let hasIncomingData = (readable remoteSocket \<noteq> []) in
      case remotePipe responseHeader (readable remoteSocket) of
        (effects, errored) \<Rightarrow>
          effects @
          (if errored \<or> ending remoteSocket = Errored
           then safeCloseWebSocket (settled remoteSocket) else []) @
          (if \<not> hasIncomingData then (case retry of None \<Rightarrow> [] | Some calls \<Rightarrow> calls)
           else []))"

subsection \<open>handleTCPOutBound\<close>

text \<open>\<open>string.split(/[ds]/)\<close> for a class \<open>ds\<close> of single characters.\<close>

fun jsSplit :: "string \<Rightarrow> string \<Rightarrow> string list" where
  "jsSplit ds [] = [[]]"
| "jsSplit ds (c # cs) =
     (if c \<in> set ds then [] # jsSplit ds cs
      else (case jsSplit ds cs of [] \<Rightarrow> [[c]] | p # ps \<Rightarrow> (c # p) # ps))"

text \<open>
  \<open>a || b\<close> where \<open>a\<close> is a string or \<open>undefined\<close>: \<open>b\<close> when \<open>a\<close> is \<open>undefined\<close> or empty.
  The third argument turns the string into a value of the type of the result.
\<close>

definition orElse :: "string option \<Rightarrow> 'a \<Rightarrow> (string \<Rightarrow> 'a) \<Rightarrow> 'a" where
  "orElse a b val = (case a of None \<Rightarrow> b | Some s \<Rightarrow> if s = [] then b else val s)"

definition connectAndWrite :: "string \<Rightarrow> port \<Rightarrow> ArrayBuffer \<Rightarrow> effect list" where
  "connectAndWrite address port' rawClientData' =
     [Connect address port', RemoteWrite address port' rawClientData']"

text \<open>
  \<open>retry()\<close>, with \<open>tcpSocket\<close> the behaviour of the socket it connects. When the write in
  \<open>connectAndWrite\<close> fails the function stops there. \<open>tcpSocket.closed.finally\<close> runs
  \<open>safeCloseWebSocket\<close> once the socket is closed, which is put after the pipe has ended,
  with the ready-state \<open>settled\<close>.
\<close>

definition retryTarget :: "string \<Rightarrow> string \<Rightarrow> nat \<Rightarrow> string \<times> port" where
  "retryTarget prxIP addressRemote' portRemote' =
     (let parts = jsSplit '':=-'' prxIP;
          proxyAddress = at parts 0;
          proxyPort = at parts 1
      in (orElse proxyAddress addressRemote' (\<lambda>s. s),
          orElse proxyPort (PortNumber portRemote') PortString))"

definition retry ::
  "string \<Rightarrow> nat \<Rightarrow> ArrayBuffer \<Rightarrow> ArrayBuffer option \<Rightarrow> string \<Rightarrow> remote \<Rightarrow> effect list" where
  "retry addressRemote' portRemote' rawClientData' responseHeader prxIP tcpSocket =
     (case retryTarget prxIP addressRemote' portRemote' of
        (address, port') \<Rightarrow>
          connectAndWrite address port' rawClientData' @
          (if writable tcpSocket
           then remoteSocketToWS tcpSocket responseHeader None @
                safeCloseWebSocket (settled tcpSocket)
           else []))"

text \<open>
  \<open>handleTCPOutBound\<close>, with \<open>initial\<close> the behaviour of the socket it connects first and
  \<open>retried\<close> that of the socket \<open>retry\<close> connects. The second component is the socket left
  in \<open>remoteSocket.value\<close>: its host, its port, and whether its writable side is still
  locked. \<open>connectAndWrite\<close> takes the writer, awaits the write and only then calls
  \<open>releaseLock\<close>, so the lock stays when the write is rejected.
\<close>

definition handleTCPOutBound ::
  "string \<Rightarrow> nat \<Rightarrow> ArrayBuffer \<Rightarrow> ArrayBuffer option \<Rightarrow> string \<Rightarrow> remote \<Rightarrow> remote
     \<Rightarrow> effect list \<times> (string \<times> port \<times> bool)" where
  "handleTCPOutBound addressRemote' portRemote' rawClientData' responseHeader prxIP
       initial retried =
     (connectAndWrite addressRemote' (PortNumber portRemote') rawClientData' @
      (if writable initial
       then remoteSocketToWS initial responseHeader
              (Some (retry addressRemote' portRemote' rawClientData' responseHeader prxIP
                       retried))
       else []),
      if writable initial \<and> readable initial = []
      then (case retryTarget prxIP addressRemote' portRemote' of
              (address, port') \<Rightarrow> (address, port', \<not> writable retried))
      else (addressRemote', PortNumber portRemote', \<not> writable initial))"

subsection \<open>handleUDPOutbound\<close>

fun udpPipe :: "ArrayBuffer option \<Rightarrow> (nat \<times> ArrayBuffer) list \<Rightarrow> effect list" where
  "udpPipe protocolHeader' [] = []"
| "udpPipe protocolHeader' ((readyState, chunk) # rest) =
     (if readyState = WS_READY_STATE_OPEN then
        (case protocolHeader' of
           Some h \<Rightarrow> WsSend (blob h chunk) # udpPipe None rest
         | None \<Rightarrow> WsSend chunk # udpPipe None rest)
      else udpPipe protocolHeader' rest)"

definition handleUDPOutbound ::
  "string \<Rightarrow> nat \<Rightarrow> ArrayBuffer \<Rightarrow> ArrayBuffer option \<Rightarrow> remote \<Rightarrow> effect list" where
  "handleUDPOutbound targetAddress targetPort udpChunk responseHeader tcpSocket =
     [Connect targetAddress (PortNumber targetPort),
      RemoteWrite targetAddress (PortNumber targetPort) udpChunk] @
     (if writable tcpSocket then udpPipe responseHeader (readable tcpSocket) else [])"

subsection \<open>websocketHandler\<close>

text \<open>
  The variables \<open>isDNS\<close> and \<open>remoteSocketWrapper.value\<close> of the handler. The socket is given
  by its host, its port, and whether its writable side is locked.
\<close>

record tunnel =
  isDNS :: bool
  remoteSocketWrapper :: "(string \<times> port \<times> bool) option"

text \<open>
  One chunk of the inbound stream, with the behaviour of the sockets used while it is
  handled: \<open>socket1\<close> is the socket the chunk is written to (the one connected for it, or
  the established one), \<open>socket2\<close> the socket of the retry. \<open>cancelled\<close> is the ready-state
  of the WebSocket when the stream is cancelled.
\<close>

record inbound =
  chunk :: ArrayBuffer
  socket1 :: remote
  socket2 :: remote
  cancelled :: nat

definition parseHeader :: "ArrayBuffer \<Rightarrow> exn + parsed" where
  "parseHeader chunk' =
     (let protocol = protocolSniffer chunk' in
      if protocol = PROTOCOLS ! 0 then readHorseHeader chunk'
      else if protocol = PROTOCOLS ! 1 then readFlashHeader chunk'
      else if protocol = PROTOCOLS ! 2 then readSsHeader chunk'
      else Inl (Error ''Unknown Protocol!''))"

text \<open>
  The \<open>write(chunk, controller)\<close> of the sink of the inbound stream: the calls made, and
  the exception thrown or the handler's variables afterwards.

  \<open>handleUDPOutbound\<close> is awaited. \<open>handleTCPOutBound\<close> is not: it goes on while later
  chunks are handled, and shares with them only \<open>remoteSocketWrapper.value\<close>. Its calls
  are listed with the chunk that starts it, and a later chunk is written to the socket it
  has left in \<open>remoteSocketWrapper.value\<close>: \<open>getWriter()\<close> throws when the writable side of
  that socket is locked, and otherwise the chunk is written and the lock released.
\<close>

definition inboundWrite :: "string \<Rightarrow> tunnel \<Rightarrow> inbound \<Rightarrow> effect list \<times> (exn + tunnel)" where
  "inboundWrite prxIP st i =
     (if isDNS st then
        (handleUDPOutbound DNS_SERVER_ADDRESS DNS_SERVER_PORT (chunk i) None (socket1 i), Inr st)
      else
        (case remoteSocketWrapper st of
           Some (hostname, port', locked) \<Rightarrow>
             if locked then ([], Inl TypeError)
             else ([RemoteWrite hostname port' (chunk i)],
                   if writable (socket1 i) then Inr st else Inl NetworkError)
         | None \<Rightarrow>
             (case parseHeader (chunk i) of
                Inl e \<Rightarrow> ([], Inl e)
              | Inr (HasError message) \<Rightarrow> ([], Inl (Error message))
              | Inr (Header protocolHeader') \<Rightarrow>
                  (case (if isUDP protocolHeader' then
                           (if portRemote protocolHeader' = 53 then Inr True
                            else Inl (Error ''UDP only supports DNS port 53''))
                         else Inr (isDNS st)) of
                     Inl e \<Rightarrow> ([], Inl e)
                   | Inr isDNS' \<Rightarrow>
                       if isDNS' then
                         (handleUDPOutbound DNS_SERVER_ADDRESS DNS_SERVER_PORT (chunk i)
                            (version protocolHeader') (socket1 i),
                          Inr (st\<lparr>isDNS := isDNS'\<rparr>))
                       else
                         (case handleTCPOutBound (addressRemote protocolHeader')
                                 (portRemote protocolHeader') (rawClientData protocolHeader')
                                 (version protocolHeader') prxIP (socket1 i) (socket2 i) of
                            (effects, value) \<Rightarrow>
                              (effects,
                               Inr (st\<lparr>isDNS := isDNS',
                                       remoteSocketWrapper := Some value\<rparr>)))))))"

text \<open>
  \<open>readableWebSocketStream.pipeTo(sink)\<close> over the chunks that the inbound stream
  delivers: \<open>write\<close> runs once per chunk. When it throws, the pipe cancels the inbound
  stream, whose \<open>cancel\<close> runs \<open>safeCloseWebSocket\<close>. What the stream does on the close
  and error events of the WebSocket is not part of the model.
\<close>

fun pipeTo :: "string \<Rightarrow> tunnel \<Rightarrow> inbound list \<Rightarrow> effect list" where
  "pipeTo prxIP st [] = []"
| "pipeTo prxIP st (i # rest) =
     (case inboundWrite prxIP st i of
        (effects, Inl e) \<Rightarrow> effects @ safeCloseWebSocket (cancelled i)
      | (effects, Inr st') \<Rightarrow> effects @ pipeTo prxIP st' rest)"

definition websocketHandler :: "string \<Rightarrow> inbound list \<Rightarrow> effect list" where
  "websocketHandler prxIP inbounds =
     pipeTo prxIP \<lparr>isDNS = False, remoteSocketWrapper = None\<rparr> inbounds"

section \<open>Reference definitions\<close>

text \<open>
  What the wire formats of the three protocols prescribe, read off a frame by offset: the
  big-endian 16-bit number at an offset, the eight groups of an IPv6 address, and for each
  protocol the length of the header, the command and the rendered address. The theorems
  compare the decoders with them.
\<close>

definition be16 :: "ArrayBuffer \<Rightarrow> nat \<Rightarrow> nat" where
  "be16 frame i = unat (frame ! i) * 256 + unat (frame ! (i + 1))"

definition ipv6Groups :: "ArrayBuffer \<Rightarrow> nat \<Rightarrow> string list" where
  "ipv6Groups frame i = map (\<lambda>k. toStringRadix 16 (be16 frame (i + 2 * k))) [0..<8]"

definition ssHeaderLength :: "ArrayBuffer \<Rightarrow> nat" where
  "ssHeaderLength frame =
     1 + (if frame ! 0 = 1 then 4 else if frame ! 0 = 3 then 1 + unat (frame ! 1) else 16) + 2"

definition ssAddress :: "ArrayBuffer \<Rightarrow> string" where
  "ssAddress frame =
     (if frame ! 0 = 1 then dotted (slice frame 1 5)
      else if frame ! 0 = 3 then TextDecoder_decode (slice frame 2 (2 + unat (frame ! 1)))
      else join '':'' (ipv6Groups frame 1))"

definition flashHeaderLength :: "ArrayBuffer \<Rightarrow> nat" where
  "flashHeaderLength frame =
     (let optLen = unat (frame ! 17); atyp = frame ! (21 + optLen) in
      1 + 16 + 1 + optLen + 1 + 2 + 1 +
      (if atyp = 1 then 4 else if atyp = 2 then 1 + unat (frame ! (22 + optLen)) else 16))"

definition flashAddress :: "ArrayBuffer \<Rightarrow> string" where
  "flashAddress frame =
     (let optLen = unat (frame ! 17); atyp = frame ! (21 + optLen); i = 22 + optLen in
      if atyp = 1 then dotted (slice frame i (i + 4))
      else if atyp = 2 then TextDecoder_decode (slice frame (i + 1) (i + 1 + unat (frame ! i)))
      else ''['' @ join '':'' (ipv6Groups frame i) @ '']'')"

definition flashCmd :: "ArrayBuffer \<Rightarrow> byte option" where
  "flashCmd frame =
     (if 17 < length frame \<and> 18 + unat (frame ! 17) < length frame
      then Some (frame ! (18 + unat (frame ! 17))) else None)"

definition horseHeaderLength :: "ArrayBuffer \<Rightarrow> nat" where
  "horseHeaderLength frame =
     56 + 2 + 1 + 1 +
     (if frame ! 59 = 1 then 4 else if frame ! 59 = 3 then 1 + unat (frame ! 60) else 16) + 2 + 2"

definition horseAddress :: "ArrayBuffer \<Rightarrow> string" where
  "horseAddress frame =
     (if frame ! 59 = 1 then dotted (slice frame 60 64)
      else if frame ! 59 = 3 then TextDecoder_decode (slice frame 61 (61 + unat (frame ! 60)))
      else ''['' @ join '':'' (ipv6Groups frame 60) @ '']'')"

text \<open>The 16 bytes of a UUID as lower-case hexadecimal digits grouped 8-4-4-4-12.\<close>

definition uuidText :: "ArrayBuffer \<Rightarrow> string" where
  "uuidText bytes =
     (let hex = arrayBufferToHex bytes in
      take 8 hex @ ''-'' @ take 4 (drop 8 hex) @ ''-'' @ take 4 (drop 12 hex) @ ''-'' @
      take 4 (drop 16 hex) @ ''-'' @ drop 20 hex)"

text \<open>
  Example frames. \<open>scenario1\<close> is the Shadowsocks frame \<open>01 | 0A 00 00 01 | 00 50 | 48 49\<close>,
  \<open>scenario3\<close> the VLESS frame
  \<open>00 | uuid | 00 | 01 | 01 BB | 02 | 03 66 6F 6F | 50 41 59\<close> with the version 4 UUID
  \<open>12345678-9abc-4def-8012-3456789abcde\<close>, and \<open>trojanFrame\<close> a Trojan frame: 56 bytes,
  \<open>0D 0A\<close>, the command 1, the address 1.2.3.4 of type 1, the port 443, \<open>0D 0A\<close> and the
  payload \<open>48 49\<close>. \<open>trojanUdpFrame\<close> is the Trojan frame with the command 3, the port
  given and no payload.
\<close>

definition scenario1 :: ArrayBuffer where
  "scenario1 = [0x01, 0x0A, 0x00, 0x00, 0x01, 0x00, 0x50, 0x48, 0x49]"

definition scenario3 :: ArrayBuffer where
  "scenario3 =
     [0x00,
      0x12, 0x34, 0x56, 0x78, 0x9a, 0xbc, 0x4d, 0xef, 0x80, 0x12, 0x34, 0x56, 0x78, 0x9a, 0xbc, 0xde,
      0x00, 0x01, 0x01, 0xBB, 0x02, 0x03, 0x66, 0x6F, 0x6F, 0x50, 0x41, 0x59]"

definition trojanFrame :: ArrayBuffer where
  "trojanFrame =
     replicate 56 0x61 @ [0x0D, 0x0A, 0x01, 0x01, 1, 2, 3, 4, 0x01, 0xBB, 0x0D, 0x0A, 0x48, 0x49]"

definition trojanUdpFrame :: "byte \<Rightarrow> byte \<Rightarrow> ArrayBuffer" where
  "trojanUdpFrame hi lo =
     replicate 56 0x61 @ [0x0D, 0x0A, 0x03, 0x01, 1, 2, 3, 4, hi, lo, 0x0D, 0x0A]"

text \<open>
  \<open>scenario6\<close> is the Shadowsocks frame for 1.2.3.4, port 443, with the payload \<open>48 49\<close>.
\<close>

definition scenario6 :: ArrayBuffer where
  "scenario6 = [0x01, 1, 2, 3, 4, 0x01, 0xBB, 0x48, 0x49]"

text \<open>
  Example remote sockets: \<open>silent\<close> ends without a byte, \<open>broken\<close> ends with an error
  before any byte, \<open>talking\<close> delivers two chunks while the WebSocket is open, and
  \<open>refusing\<close> rejects the write and ends with an error before any byte.
\<close>

definition refusing :: remote where
  "refusing = \<lparr>writable = False, readable = [], ending = Errored, settled = 1\<rparr>"

definition silent :: remote where
  "silent = \<lparr>writable = True, readable = [], ending = Closed, settled = 1\<rparr>"

definition broken :: remote where
  "broken = \<lparr>writable = True, readable = [], ending = Errored, settled = 1\<rparr>"

definition talking :: remote where
  "talking =
     \<lparr>writable = True, readable = [(1, [0x41]), (1, [0x42, 0x43])], ending = Closed,
      settled = 1\<rparr>"

text \<open>The calls of one kind in a list of calls, in order.\<close>

fun connects :: "effect list \<Rightarrow> (string \<times> port) list" where
  "connects [] = []"
| "connects (Connect hostname p # es) = (hostname, p) # connects es"
| "connects (e # es) = connects es"

fun remoteWrites :: "effect list \<Rightarrow> (string \<times> port \<times> ArrayBuffer) list" where
  "remoteWrites [] = []"
| "remoteWrites (RemoteWrite hostname p d # es) = (hostname, p, d) # remoteWrites es"
| "remoteWrites (e # es) = remoteWrites es"

fun sends :: "effect list \<Rightarrow> ArrayBuffer list" where
  "sends [] = []"
| "sends (WsSend d # es) = d # sends es"
| "sends (e # es) = sends es"

fun remoteCloses :: "effect list \<Rightarrow> (string \<times> port) list" where
  "remoteCloses [] = []"
| "remoteCloses (RemoteClose hostname p # es) = (hostname, p) # remoteCloses es"
| "remoteCloses (e # es) = remoteCloses es"

text \<open>
  The host and the port of an upstream hint: the text before the first of the delimiters
  \<open>:\<close>, \<open>=\<close> and \<open>-\<close>, and the text between the first and the second.
\<close>

definition noDelimiter :: "char \<Rightarrow> bool" where
  "noDelimiter c = (c \<notin> set '':=-'')"

definition hintHost :: "string \<Rightarrow> string" where
  "hintHost prxIP = takeWhile noDelimiter prxIP"

definition hintPort :: "string \<Rightarrow> string" where
  "hintPort prxIP = takeWhile noDelimiter (drop 1 (dropWhile noDelimiter prxIP))"

text \<open>The payloads with the response prelude put in front of the first one.\<close>

fun withPrelude :: "ArrayBuffer option \<Rightarrow> ArrayBuffer list \<Rightarrow> ArrayBuffer list" where
  "withPrelude prelude [] = []"
| "withPrelude None (c # cs) = c # cs"
| "withPrelude (Some p) (c # cs) = (p @ c) # cs"

text \<open>
  The chunks of a remote socket that the TCP bridge passes to \<open>send\<close>: all up to and
  including the first that arrives while the WebSocket is not open. The DNS bridge passes
  those that arrive while it is open.
\<close>

fun relayedTcp :: "(nat \<times> ArrayBuffer) list \<Rightarrow> ArrayBuffer list" where
  "relayedTcp [] = []"
| "relayedTcp ((readyState, c) # rest) =
     c # (if readyState = WS_READY_STATE_OPEN then relayedTcp rest else [])"

definition relayedUdp :: "remote \<Rightarrow> ArrayBuffer list" where
  "relayedUdp r =
     (if writable r
      then map snd (filter (\<lambda>(readyState, c). readyState = WS_READY_STATE_OPEN) (readable r))
      else [])"

text \<open>
  The payloads relayed by \<open>handleTCPOutBound\<close>: those of the first socket, or those of the
  socket of the retry when the first one delivered nothing.
\<close>

definition relayedTcpPath :: "remote \<Rightarrow> remote \<Rightarrow> ArrayBuffer list" where
  "relayedTcpPath initial retried =
     (if writable initial then
        (if readable initial = []
         then (if writable retried then relayedTcp (readable retried) else [])
         else relayedTcp (readable initial))
      else [])"

text \<open>The state of the handler before the first chunk.\<close>

definition awaitFirst :: tunnel where
  "awaitFirst = \<lparr>isDNS = False, remoteSocketWrapper = None\<rparr>"

section \<open>Properties of the built-ins\<close>

text \<open>
  Slices and reads at an offset of a frame, the loop over the groups of an IPv6 address,
  the fields of a split string, and the length of the hexadecimal text of a buffer.
\<close>

lemma at_slice_one:
  "a < b \<Longrightarrow> at (slice F a b) 0 = (if a < length F then Some (F ! a) else None)"
  by (simp add: at_def slice_def)

lemma at_slice_self: "at (slice F 0 0) 0 = None"
  by (simp add: at_def slice_def)

lemma slice_to_zero: "slice F a 0 = []"
  by (simp add: slice_def)

lemma slice_drop: "slice (drop k F) a b = slice F (k + a) (k + b)"
  by (simp add: slice_def add.commute)

lemma TextDecoder_decode_Nil: "TextDecoder_decode [] = []"
  by (simp add: TextDecoder_decode_def stripBOM_def)

lemma getUint16_slice:
  "q = p + 2 \<Longrightarrow>
     getUint16 (slice F p q) 0 = (if p + 2 \<le> length F then Inr (be16 F p) else Inl RangeError)"
  by (auto simp add: getUint16_def slice_def be16_def min_def)

lemma ipv6Loop_short:
  "i < 8 \<Longrightarrow> length v < 16 \<Longrightarrow> ipv6Loop v i acc = Inl RangeError"
proof (induction v i acc rule: ipv6Loop.induct)
  case (1 dataView i ipv6)
  show ?case
  proof (cases "getUint16 dataView (i * 2)")
    case (Inl e)
    then have "e = RangeError" by (auto simp: getUint16_def split: if_splits)
    with Inl 1 show ?thesis by (simp add: ipv6Loop.simps [of dataView i])
  next
    case (Inr g)
    then have "i * 2 + 2 \<le> length dataView" by (auto simp: getUint16_def split: if_splits)
    with 1 have "i + 1 < 8" by simp
    with 1 Inr show ?thesis by (simp add: ipv6Loop.simps [of dataView i])
  qed
qed

lemma ipv6Loop_full:
  "i \<le> 8 \<Longrightarrow> 16 \<le> length v \<Longrightarrow>
     ipv6Loop v i acc = Inr (acc @ map (\<lambda>k. toStringRadix 16 (be16 v (2 * k))) [i..<8])"
proof (induction v i acc rule: ipv6Loop.induct)
  case (1 dataView i ipv6)
  show ?case
  proof (cases "i < 8")
    case True
    then have g: "getUint16 dataView (i * 2) = Inr (be16 dataView (2 * i))"
      using 1(3) by (simp add: getUint16_def be16_def mult.commute)
    have "ipv6Loop dataView (i + 1) (ipv6 @ [toStringRadix 16 (be16 dataView (2 * i))]) =
        Inr ((ipv6 @ [toStringRadix 16 (be16 dataView (2 * i))]) @
             map (\<lambda>k. toStringRadix 16 (be16 dataView (2 * k))) [i + 1..<8])"
      using 1(1) [OF True g] True 1(3) by simp
    then show ?thesis
      using True g by (simp add: ipv6Loop.simps [of dataView i] upt_conv_Cons)
  next
    case False
    with 1 have "i = 8" by simp
    then show ?thesis by (simp add: ipv6Loop.simps [of dataView 8])
  qed
qed

lemma ipv6Loop_slice_add:
  "ipv6Loop (slice F p (p + 16)) 0 [] =
     (if p + 16 \<le> length F then Inr (ipv6Groups F p) else Inl RangeError)"
proof (cases "p + 16 \<le> length F")
  case True
  then have l: "length (slice F p (p + 16)) = 16" by (simp add: slice_def)
  have "\<And>k. k < 8 \<Longrightarrow> be16 (slice F p (p + 16)) (2 * k) = be16 F (p + 2 * k)"
    using True by (simp add: be16_def slice_def)
  then have "map (\<lambda>k. toStringRadix 16 (be16 (slice F p (p + 16)) (2 * k))) [0..<8] = ipv6Groups F p"
    unfolding ipv6Groups_def by (intro map_cong) auto
  with True l show ?thesis
    using ipv6Loop_full [of 0 "slice F p (p + 16)" "[]"] by simp
next
  case False
  then have "length (slice F p (p + 16)) < 16" by (simp add: slice_def)
  with False show ?thesis using ipv6Loop_short [of 0 "slice F p (p + 16)" "[]"] by simp
qed

lemma ipv6Loop_slice:
  "q = p + 16 \<Longrightarrow>
     ipv6Loop (slice F p q) 0 [] =
       (if p + 16 \<le> length F then Inr (ipv6Groups F p) else Inl RangeError)"
  using ipv6Loop_slice_add [of F p] by simp

lemma jsSplit_not_Nil: "jsSplit ds s \<noteq> []"
  by (induction s) (simp_all split: list.splits)

lemma jsSplit_hd: "hd (jsSplit ds s) = takeWhile (\<lambda>c. c \<notin> set ds) s"
  by (induction s) (auto simp: jsSplit_not_Nil split: list.splits)

lemma jsSplit_tl:
  "tl (jsSplit ds s) =
     (if dropWhile (\<lambda>c. c \<notin> set ds) s = [] then []
      else jsSplit ds (tl (dropWhile (\<lambda>c. c \<notin> set ds) s)))"
  by (induction s) (auto simp: jsSplit_not_Nil split: list.splits)

lemma jsSplit_at_0: "at (jsSplit ds s) 0 = Some (takeWhile (\<lambda>c. c \<notin> set ds) s)"
  using jsSplit_not_Nil [of ds s] jsSplit_hd [of ds s]
  by (cases "jsSplit ds s") (simp_all add: at_def)

lemma jsSplit_at_1:
  "at (jsSplit ds s) 1 =
     (if dropWhile (\<lambda>c. c \<notin> set ds) s = [] then None
      else Some (takeWhile (\<lambda>c. c \<notin> set ds) (tl (dropWhile (\<lambda>c. c \<notin> set ds) s))))"
proof -
  have t: "at (jsSplit ds s) 1 = at (tl (jsSplit ds s)) 0"
    using jsSplit_not_Nil [of ds s] by (cases "jsSplit ds s") (simp_all add: at_def)
  show ?thesis
  proof (cases "dropWhile (\<lambda>c. c \<notin> set ds) s = []")
    case True
    then have "tl (jsSplit ds s) = []" by (simp only: jsSplit_tl refl if_True)
    with True t show ?thesis by (simp add: at_def)
  next
    case False
    then have "tl (jsSplit ds s) = jsSplit ds (tl (dropWhile (\<lambda>c. c \<notin> set ds) s))"
      by (simp only: jsSplit_tl if_False)
    with False t show ?thesis by (simp only: jsSplit_at_0 if_False)
  qed
qed

lemma length_join_Nil: "length (join [] xs) = sum_list (map length xs)"
  by (induction "[] :: string" xs rule: join.induct) simp_all

lemma length_hex_byte: "length (padStart 2 c (toStringRadix 16 (unat (x :: byte)))) = 2"
proof -
  have "unat x < 2 ^ LENGTH(8)" by (rule unsigned_less)
  then have "unat x < 256" by simp
  then have "unat x div 16 < 16" by simp
  then have "length (toStringRadix 16 (unat x)) \<le> 2"
    by (simp add: toStringRadix.simps [of 16 "unat x"] toStringRadix.simps [of 16 "unat x div 16"])
  moreover have "length (toStringRadix 16 (unat x)) \<ge> 1"
    by (simp add: toStringRadix.simps [of 16 "unat x"])
  ultimately show ?thesis by (simp add: padStart_def)
qed

lemma length_arrayBufferToHex: "length (arrayBufferToHex buffer) = 2 * length buffer"
  by (induction buffer) (simp_all add: arrayBufferToHex_def length_join_Nil length_hex_byte)

lemma regexTest_length: "regexTest ps s \<Longrightarrow> length s = sum_list (map snd ps)"
proof (induction ps arbitrary: s)
  case Nil
  then show ?case by simp
next
  case (Cons p ps)
  obtain cls n where p: "p = (cls, n)" by (cases p)
  with Cons.prems have n: "n \<le> length s" and r: "regexTest ps (drop n s)" by simp_all
  from Cons.IH [OF r] have "length s - n = sum_list (map snd ps)" by simp
  with n p show ?case by simp
qed

section \<open>Properties of the sniffer\<close>

text \<open>
  The text tested against the UUID pattern has at most 32 characters and the pattern
  matches 36, so the test fails for every buffer.
\<close>

lemma flashTest_never: "\<not> flashTest buffer"
proof
  assume "flashTest buffer"
  then have "regexTest uuidV4Pattern (arrayBufferToHex (slice buffer 1 17))"
    by (simp add: flashTest_def)
  then have "length (arrayBufferToHex (slice buffer 1 17)) = sum_list (map snd uuidV4Pattern)"
    by (rule regexTest_length)
  then have "length (arrayBufferToHex (slice buffer 1 17)) = 36"
    by (simp add: uuidV4Pattern_def)
  moreover have "length (slice buffer 1 17) \<le> 16" by (simp add: slice_def)
  ultimately show False by (simp add: length_arrayBufferToHex)
qed

lemma protocolSniffer_cases:
  "protocolSniffer buffer = (if horseTest buffer then ''trojan'' else ''ss'')"
  by (simp add: protocolSniffer_def flashTest_never PROTOCOLS_def)

section \<open>Properties of the decoders\<close>

text \<open>
  What a decoder has read when it returns a header, and the frames for which it does.
\<close>

lemma readSsHeader_Header:
  assumes "readSsHeader F = Inr (Header h)"
  shows "F \<noteq> [] \<and> (F ! 0 = 1 \<or> F ! 0 = 3 \<or> F ! 0 = 4) \<and> ssHeaderLength F \<le> length F \<and>
     ssAddress F \<noteq> [] \<and>
     h = \<lparr>addressRemote = ssAddress F, addressType = Some (F ! 0),
          portRemote = be16 F (ssHeaderLength F - 2),
          rawClientData = drop (ssHeaderLength F) F, version = None,
          isUDP = (be16 F (ssHeaderLength F - 2) = 53)\<rparr>"
proof -
  from assms have ne: "F \<noteq> []"
    by (auto simp: readSsHeader_def getUint8_def split: if_splits)
  then have g: "getUint8 F 0 = Inr (F ! 0)" by (simp add: getUint8_def)
  consider (v4) "F ! 0 = 1" | (dom) "F ! 0 = 3" | (v6) "F ! 0 = 4" | (bad) "F ! 0 \<noteq> 1" "F ! 0 \<noteq> 3" "F ! 0 \<noteq> 4"
    by blast
  then show ?thesis
  proof cases
    case v4
    with assms g ne show ?thesis
      by (auto simp: readSsHeader_def ssReturn_def ssHeaderLength_def ssAddress_def nanIndex_def
          sliceFrom_def getUint16_slice split: if_splits)
  next
    case dom
    with assms g ne show ?thesis
      by (auto simp: readSsHeader_def ssReturn_def ssHeaderLength_def ssAddress_def nanIndex_def
          sliceFrom_def getUint16_slice at_slice_one Let_def numeral_2_eq_2 slice_to_zero TextDecoder_decode_Nil
          split: if_splits sum.splits)
  next
    case v6
    with assms g ne show ?thesis
      by (auto simp: ipv6Loop_slice readSsHeader_def ssReturn_def ssHeaderLength_def ssAddress_def nanIndex_def
          sliceFrom_def getUint16_slice Let_def
          split: if_splits sum.splits)
  next
    case bad
    with assms g show ?thesis by (simp add: readSsHeader_def)
  qed
qed

lemma readSsHeader_invalid:
  assumes "F \<noteq> []" "F ! 0 \<noteq> 1" "F ! 0 \<noteq> 3" "F ! 0 \<noteq> 4"
  shows "readSsHeader F =
     Inr (HasError (''Invalid addressType for SS: '' @ template (Some (F ! 0))))"
  using assms by (simp add: readSsHeader_def getUint8_def)

lemma readSsHeader_empty:
  assumes "F \<noteq> []" "F ! 0 = 1 \<or> F ! 0 = 3" "ssAddress F = []"
  shows "readSsHeader F =
     Inr (HasError (''Destination address empty for SS, address type: '' @
                    template (Some (F ! 0))))"
proof -
  from assms(1) have g: "getUint8 F 0 = Inr (F ! 0)" by (simp add: getUint8_def)
  from assms(2) show ?thesis
  proof
    assume "F ! 0 = 1"
    with assms g show ?thesis
      by (simp add: readSsHeader_def ssReturn_def ssAddress_def)
  next
    assume t: "F ! 0 = 3"
    show ?thesis
    proof (cases "1 < length F")
      case True
      with assms g t show ?thesis
        by (simp add: readSsHeader_def ssReturn_def ssAddress_def at_slice_one nanIndex_def Let_def
            numeral_2_eq_2)
    next
      case False
      with assms g t show ?thesis
        by (simp add: readSsHeader_def ssReturn_def at_slice_one nanIndex_def slice_to_zero
            TextDecoder_decode_Nil Let_def)
    qed
  qed
qed

lemma readSsHeader_complete:
  assumes "F \<noteq> []" "F ! 0 = 1 \<or> F ! 0 = 3 \<or> F ! 0 = 4" "ssAddress F \<noteq> []"
    "ssHeaderLength F \<le> length F"
  shows "readSsHeader F =
     Inr (Header \<lparr>addressRemote = ssAddress F, addressType = Some (F ! 0),
            portRemote = be16 F (ssHeaderLength F - 2),
            rawClientData = drop (ssHeaderLength F) F, version = None,
            isUDP = (be16 F (ssHeaderLength F - 2) = 53)\<rparr>)"
proof -
  from assms(1) have g: "getUint8 F 0 = Inr (F ! 0)" by (simp add: getUint8_def)
  from assms(2) consider (v4) "F ! 0 = 1" | (dom) "F ! 0 = 3" | (v6) "F ! 0 = 4" by blast
  then show ?thesis
  proof cases
    case v4
    with assms g show ?thesis
      by (simp add: readSsHeader_def ssReturn_def ssAddress_def ssHeaderLength_def nanIndex_def
          getUint16_slice sliceFrom_def Let_def)
  next
    case dom
    with assms g show ?thesis
      by (simp add: readSsHeader_def ssReturn_def ssAddress_def ssHeaderLength_def nanIndex_def
          getUint16_slice sliceFrom_def at_slice_one Let_def numeral_2_eq_2)
  next
    case v6
    with assms g show ?thesis
      by (simp add: readSsHeader_def ssReturn_def ssAddress_def ssHeaderLength_def nanIndex_def
          getUint16_slice sliceFrom_def ipv6Loop_slice Let_def)
  qed
qed

lemma readSsHeader_Nil: "readSsHeader [] = Inl RangeError"
  by (simp add: readSsHeader_def getUint8_def)

lemma join_not_Nil: "sep \<noteq> [] \<Longrightarrow> 2 \<le> length xs \<Longrightarrow> join sep xs \<noteq> []"
  by (induction sep xs rule: join.induct) simp_all

lemma ssAddress_v6: "frame ! 0 = 4 \<Longrightarrow> ssAddress frame \<noteq> []"
  by (simp add: ssAddress_def ipv6Groups_def join_not_Nil)

lemma readSsHeader_short:
  assumes "F \<noteq> []"
    and "(F ! 0 = 1 \<or> F ! 0 = 3) \<and> ssAddress F \<noteq> [] \<or> F ! 0 = 4"
    and "length F < ssHeaderLength F"
  shows "readSsHeader F = Inl RangeError"
proof -
  from assms(1) have g: "getUint8 F 0 = Inr (F ! 0)" by (simp add: getUint8_def)
  from assms(2) consider (v4) "F ! 0 = 1" "ssAddress F \<noteq> []"
    | (dom) "F ! 0 = 3" "ssAddress F \<noteq> []" | (v6) "F ! 0 = 4"
    by auto
  then show ?thesis
  proof cases
    case v4
    with assms(3) g show ?thesis
      by (simp add: readSsHeader_def ssReturn_def ssAddress_def ssHeaderLength_def nanIndex_def
          getUint16_slice Let_def)
  next
    case dom
    have l: "1 < length F"
    proof (rule ccontr)
      assume "\<not> 1 < length F"
      then have "slice F 2 (2 + unat (F ! 1)) = []" by (simp add: slice_def)
      with dom show False by (simp add: ssAddress_def TextDecoder_decode_Nil)
    qed
    with dom assms(3) g show ?thesis
      by (simp add: readSsHeader_def ssReturn_def ssAddress_def ssHeaderLength_def nanIndex_def
          getUint16_slice at_slice_one Let_def numeral_2_eq_2)
  next
    case v6
    show ?thesis
    proof (cases "17 \<le> length F")
      case True
      with v6 assms(3) g ssAddress_v6 [OF v6(1)] show ?thesis
        by (simp add: readSsHeader_def ssReturn_def ssAddress_def ssHeaderLength_def
            nanIndex_def getUint16_slice ipv6Loop_slice Let_def)
    next
      case False
      with v6 g show ?thesis
        by (simp add: readSsHeader_def ipv6Loop_slice Let_def)
    qed
  qed
qed

lemma readFlashHeader_cmd:
  assumes "flashCmd F \<noteq> Some 1" and "flashCmd F \<noteq> Some 2"
  shows "readFlashHeader F =
     Inr (HasError (''Unsupported VLESS command: '' @ template (flashCmd F)))"
proof (cases "17 < length F")
  case False
  then show ?thesis
    by (simp add: readFlashHeader_def flashCmd_def at_slice_one nanIndex_def at_slice_self)
next
  case True
  then have "at (slice F 17 18) 0 = Some (F ! 17)" by (simp add: at_slice_one)
  moreover have "at (slice F (18 + unat (F ! 17)) (18 + unat (F ! 17) + 1)) 0 = flashCmd F"
    using True by (simp add: at_slice_one flashCmd_def)
  ultimately show ?thesis using assms by (simp add: readFlashHeader_def Let_def)
qed

lemma readFlashHeader_Header:
  assumes "readFlashHeader F = Inr (Header h)"
  shows "17 < length F \<and> (flashCmd F = Some 1 \<or> flashCmd F = Some 2) \<and>
     21 + unat (F ! 17) < length F \<and>
     (F ! (21 + unat (F ! 17)) = 1 \<or> F ! (21 + unat (F ! 17)) = 2 \<or> F ! (21 + unat (F ! 17)) = 3) \<and>
     flashAddress F \<noteq> [] \<and>
     h = \<lparr>addressRemote = flashAddress F, addressType = Some (F ! (21 + unat (F ! 17))),
          portRemote = be16 F (19 + unat (F ! 17)),
          rawClientData = drop (flashHeaderLength F) F, version = Some [F ! 0, 0],
          isUDP = (flashCmd F = Some 2)\<rparr>"
proof -
  have cmd: "flashCmd F = Some 1 \<or> flashCmd F = Some 2"
    using assms readFlashHeader_cmd [of F] by auto
  then have l: "17 < length F" by (auto simp: flashCmd_def split: if_splits)
  define n where "n = unat (F ! 17)"
  have opt: "at (slice F 17 18) 0 = Some (F ! 17)" using l by (simp add: at_slice_one)
  have cmdv: "at (slice F (18 + n) (18 + n + 1)) 0 = flashCmd F"
    using l by (simp add: at_slice_one flashCmd_def n_def)
  have v: "at (slice F 0 1) 0 = Some (F ! 0)" using l by (auto simp: at_slice_one)
  let ?t = "at (slice F (18 + n + 1 + 2) (18 + n + 1 + 2 + 1)) 0"
  let ?body = "\<lambda>portRemote'.
     (if ?t = Some 1 then
        Inr (flashReturn F (slice F 0 1) ?t (flashCmd F = Some 2) portRemote' (Some 4)
               (18 + n + 1 + 2 + 1) (dotted (slice F (18 + n + 1 + 2 + 1) (18 + n + 1 + 2 + 1 + 4))))
      else if ?t = Some 2 then
        (let addressLength = map_option unat (at (slice F (18 + n + 1 + 2 + 1) (18 + n + 1 + 2 + 1 + 1)) 0)
         in Inr (flashReturn F (slice F 0 1) ?t (flashCmd F = Some 2) portRemote'
                   addressLength (18 + n + 1 + 2 + 1 + 1)
                   (TextDecoder_decode
                      (slice F (18 + n + 1 + 2 + 1 + 1)
                         (nanIndex (map_option (\<lambda>l. 18 + n + 1 + 2 + 1 + 1 + l) addressLength))))))
      else if ?t = Some 3 then
        (case ipv6Loop (slice F (18 + n + 1 + 2 + 1) (18 + n + 1 + 2 + 1 + 16)) 0 [] of
           Inl e \<Rightarrow> Inl e
         | Inr ipv6 \<Rightarrow>
             Inr (flashReturn F (slice F 0 1) ?t (flashCmd F = Some 2) portRemote'
                    (Some 16) (18 + n + 1 + 2 + 1) (''['' @ join '':'' ipv6 @ '']'')))
      else Inr (HasError (''Invalid VLESS addressType: '' @ template ?t)))"
  from cmd have c: "\<not> (flashCmd F \<noteq> Some 1 \<and> flashCmd F \<noteq> Some 2)" by auto
  have unf: "readFlashHeader F =
      (case getUint16 (slice F (18 + n + 1) (18 + n + 1 + 2)) 0 of Inl e \<Rightarrow> Inl e
       | Inr portRemote' \<Rightarrow> ?body portRemote')"
    unfolding readFlashHeader_def Let_def opt option.case n_def [symmetric] cmdv if_not_P [OF c]
    by (rule refl)
  have gp: "getUint16 (slice F (18 + n + 1) (18 + n + 1 + 2)) 0 =
      (if 21 + n \<le> length F then Inr (be16 F (19 + n)) else Inl RangeError)"
    by (simp add: getUint16_slice)
  from assms unf gp have port: "21 + n \<le> length F"
    by (auto split: if_splits)
  with assms unf gp have body: "?body (be16 F (19 + n)) = Inr (Header h)"
    by simp
  have tv: "?t = (if 21 + n < length F then Some (F ! (21 + n)) else None)"
    by (simp add: at_slice_one)
  consider (v4) "?t = Some 1" | (dom) "?t = Some 2" | (v6) "?t = Some 3"
    | (bad) "?t \<noteq> Some 1" "?t \<noteq> Some 2" "?t \<noteq> Some 3"
    by blast
  then show ?thesis
  proof cases
    case v4
    with tv have t: "21 + n < length F" "F ! (21 + n) = 1" by (auto split: if_splits)
    from body v4 t l cmd v show ?thesis
      by (auto simp: flashReturn_def flashAddress_def flashHeaderLength_def n_def [symmetric]
          Let_def nanIndex_def sliceFrom_def split: if_splits)
  next
    case dom
    with tv have t: "21 + n < length F" "F ! (21 + n) = 2" by (auto split: if_splits)
    from body dom t l cmd v show ?thesis
      by (auto simp: flashReturn_def flashAddress_def flashHeaderLength_def n_def [symmetric]
          Let_def nanIndex_def sliceFrom_def at_slice_one slice_to_zero TextDecoder_decode_Nil
          ac_simps split: if_splits)
  next
    case v6
    with tv have t: "21 + n < length F" "F ! (21 + n) = 3" by (auto split: if_splits)
    from body v6 t l cmd v show ?thesis
      by (auto simp: flashReturn_def flashAddress_def flashHeaderLength_def n_def [symmetric]
          Let_def nanIndex_def sliceFrom_def ipv6Loop_slice split: if_splits sum.splits)
  next
    case bad
    with body show ?thesis by simp
  qed
qed

lemma readFlashHeader_complete:
  assumes "17 < length F" "flashCmd F = Some 1 \<or> flashCmd F = Some 2"
    "21 + unat (F ! 17) < length F"
    "F ! (21 + unat (F ! 17)) = 1 \<or> F ! (21 + unat (F ! 17)) = 2 \<or>
     F ! (21 + unat (F ! 17)) = 3 \<and> 38 + unat (F ! 17) \<le> length F"
    "flashAddress F \<noteq> []"
  shows "readFlashHeader F =
     Inr (Header \<lparr>addressRemote = flashAddress F, addressType = Some (F ! (21 + unat (F ! 17))),
          portRemote = be16 F (19 + unat (F ! 17)),
          rawClientData = drop (flashHeaderLength F) F, version = Some [F ! 0, 0],
          isUDP = (flashCmd F = Some 2)\<rparr>)"
proof -
  define n where "n = unat (F ! 17)"
  have opt: "at (slice F 17 18) 0 = Some (F ! 17)" using assms(1) by (simp add: at_slice_one)
  have cmdv: "at (slice F (18 + n) (18 + n + 1)) 0 = flashCmd F"
    using assms(1) by (simp add: at_slice_one flashCmd_def n_def)
  have v: "at (slice F 0 1) 0 = Some (F ! 0)" using assms(1) by (auto simp: at_slice_one)
  from assms(2) have c: "\<not> (flashCmd F \<noteq> Some 1 \<and> flashCmd F \<noteq> Some 2)" by auto
  have gp: "getUint16 (slice F (18 + n + 1) (18 + n + 1 + 2)) 0 = Inr (be16 F (19 + n))"
    using assms(3) by (simp add: getUint16_slice n_def)
  have tv: "at (slice F (18 + n + 1 + 2) (18 + n + 1 + 2 + 1)) 0 = Some (F ! (21 + n))"
    using assms(3) by (simp add: at_slice_one n_def)
  have unf: "readFlashHeader F =
     (if F ! (21 + n) = 1 then
        Inr (flashReturn F (slice F 0 1) (Some (F ! (21 + n))) (flashCmd F = Some 2)
               (be16 F (19 + n)) (Some 4)
               (18 + n + 1 + 2 + 1) (dotted (slice F (18 + n + 1 + 2 + 1) (18 + n + 1 + 2 + 1 + 4))))
      else if F ! (21 + n) = 2 then
        (let addressLength = map_option unat (at (slice F (18 + n + 1 + 2 + 1) (18 + n + 1 + 2 + 1 + 1)) 0)
         in Inr (flashReturn F (slice F 0 1) (Some (F ! (21 + n))) (flashCmd F = Some 2)
                   (be16 F (19 + n)) addressLength (18 + n + 1 + 2 + 1 + 1)
                   (TextDecoder_decode
                      (slice F (18 + n + 1 + 2 + 1 + 1)
                         (nanIndex (map_option (\<lambda>l. 18 + n + 1 + 2 + 1 + 1 + l) addressLength))))))
      else if F ! (21 + n) = 3 then
        (case ipv6Loop (slice F (18 + n + 1 + 2 + 1) (18 + n + 1 + 2 + 1 + 16)) 0 [] of
           Inl e \<Rightarrow> Inl e
         | Inr ipv6 \<Rightarrow>
             Inr (flashReturn F (slice F 0 1) (Some (F ! (21 + n))) (flashCmd F = Some 2)
                    (be16 F (19 + n)) (Some 16) (18 + n + 1 + 2 + 1) (''['' @ join '':'' ipv6 @ '']'')))
      else Inr (HasError (''Invalid VLESS addressType: '' @ template (Some (F ! (21 + n))))))"
    unfolding readFlashHeader_def Let_def opt option.case n_def [symmetric] cmdv if_not_P [OF c]
      gp sum.case tv option.inject
    by (rule refl)
  from assms(4) consider (v4) "F ! (21 + n) = 1" | (dom) "F ! (21 + n) = 2"
    | (v6) "F ! (21 + n) = 3" "38 + n \<le> length F"
    by (auto simp: n_def)
  then show ?thesis
  proof cases
    case v4
    with assms(5) v show ?thesis unfolding unf
      by (simp add: flashReturn_def flashAddress_def flashHeaderLength_def n_def [symmetric]
          nanIndex_def sliceFrom_def)
  next
    case dom
    have "22 + n < length F"
    proof (rule ccontr)
      assume "\<not> 22 + n < length F"
      then have "slice F (22 + n + 1) (22 + n + 1 + unat (F ! (22 + n))) = []"
        by (simp add: slice_def)
      with dom assms(5) show False
        by (simp add: flashAddress_def n_def [symmetric] Let_def TextDecoder_decode_Nil)
    qed
    with dom assms(5) v show ?thesis unfolding unf
      by (simp add: flashReturn_def flashAddress_def flashHeaderLength_def n_def [symmetric]
          nanIndex_def sliceFrom_def at_slice_one Let_def ac_simps)
  next
    case v6
    with assms(5) v show ?thesis unfolding unf
      by (simp add: flashReturn_def flashAddress_def flashHeaderLength_def n_def [symmetric]
          nanIndex_def sliceFrom_def ipv6Loop_slice Let_def)
  qed
qed

lemma readHorseHeader_Header:
  assumes "readHorseHeader F = Inr (Header h)"
  shows "64 \<le> length F \<and> (F ! 58 = 1 \<or> F ! 58 = 3) \<and>
     (F ! 59 = 1 \<or> F ! 59 = 3 \<or> F ! 59 = 4) \<and>
     horseHeaderLength F - 2 \<le> length F \<and> horseAddress F \<noteq> [] \<and>
     h = \<lparr>addressRemote = horseAddress F, addressType = None,
          portRemote = be16 F (horseHeaderLength F - 4),
          rawClientData = drop (horseHeaderLength F) F, version = None,
          isUDP = (F ! 58 = 3)\<rparr>"
proof -
  from assms have l: "64 \<le> length F"
    by (auto simp: readHorseHeader_def sliceFrom_def Let_def split: if_splits)
  then have g0: "getUint8 (drop 58 F) 0 = Inr (F ! 58)" and g1: "getUint8 (drop 58 F) 1 = Inr (F ! 59)"
    by (simp_all add: getUint8_def)
  have ll: "\<not> length F - 58 < 6" using l by simp
  from assms g0 ll have cmd: "F ! 58 = 1 \<or> F ! 58 = 3"
    by (auto simp: readHorseHeader_def sliceFrom_def Let_def split: if_splits)
  then have c: "\<not> (F ! 58 \<noteq> 3 \<and> F ! 58 \<noteq> 1)" by auto
  consider (v4) "F ! 59 = 1" | (dom) "F ! 59 = 3" | (v6) "F ! 59 = 4"
    | (bad) "F ! 59 \<noteq> 1" "F ! 59 \<noteq> 3" "F ! 59 \<noteq> 4"
    by blast
  then show ?thesis
  proof cases
    case v4
    with assms g0 g1 ll c l show ?thesis
      by (auto simp: readHorseHeader_def sliceFrom_def horseReturn_def horseHeaderLength_def
          horseAddress_def nanIndex_def slice_drop getUint16_slice Let_def
          split: if_splits)
  next
    case dom
    with assms g0 g1 ll c l show ?thesis
      by (auto simp: readHorseHeader_def sliceFrom_def horseReturn_def horseHeaderLength_def
          horseAddress_def nanIndex_def slice_drop getUint16_slice at_slice_one Let_def ac_simps
          split: if_splits)
  next
    case v6
    with assms g0 g1 ll c l show ?thesis
      by (auto simp: readHorseHeader_def sliceFrom_def horseReturn_def horseHeaderLength_def
          horseAddress_def nanIndex_def slice_drop getUint16_slice ipv6Loop_slice Let_def
          split: if_splits sum.splits)
  next
    case bad
    with assms g0 g1 ll c show ?thesis
      by (simp add: readHorseHeader_def sliceFrom_def Let_def)
  qed
qed

section \<open>Properties of the tunnel\<close>

text \<open>
  The calls of each kind made by the bridges, by the outbound handlers and by a run of
  the handler.
\<close>

lemma connects_append [simp]: "connects (xs @ ys) = connects xs @ connects ys"
  by (induction xs rule: connects.induct) simp_all

lemma remoteWrites_append [simp]: "remoteWrites (xs @ ys) = remoteWrites xs @ remoteWrites ys"
  by (induction xs rule: remoteWrites.induct) simp_all

lemma sends_append [simp]: "sends (xs @ ys) = sends xs @ sends ys"
  by (induction xs rule: sends.induct) simp_all

lemma remoteCloses_append [simp]: "remoteCloses (xs @ ys) = remoteCloses xs @ remoteCloses ys"
  by (induction xs rule: remoteCloses.induct) simp_all

lemma safeCloseWebSocket_calls [simp]:
  "connects (safeCloseWebSocket rs) = []" "remoteWrites (safeCloseWebSocket rs) = []"
  "sends (safeCloseWebSocket rs) = []" "remoteCloses (safeCloseWebSocket rs) = []"
  by (simp_all add: safeCloseWebSocket_def)

lemma remotePipe_Cons:
  "remotePipe header ((rs, c) # rest) =
     (if rs \<noteq> WS_READY_STATE_OPEN
      then ([StreamError ''WebSocket is not open, maybe closed'',
             WsSend (case header of Some h \<Rightarrow> h @ c | None \<Rightarrow> c)], True)
      else (WsSend (case header of Some h \<Rightarrow> h @ c | None \<Rightarrow> c) # fst (remotePipe None rest),
            snd (remotePipe None rest)))"
  by (simp add: remoteSinkWrite_def blob_def split: prod.splits option.splits)

lemma remotePipe_calls:
  "connects (fst (remotePipe header cs)) = [] \<and>
   remoteWrites (fst (remotePipe header cs)) = [] \<and>
   remoteCloses (fst (remotePipe header cs)) = []"
proof (induction cs arbitrary: header)
  case Nil
  then show ?case by simp
next
  case (Cons x cs)
  obtain rs c where x: "x = (rs, c)" by (cases x)
  show ?case
    unfolding x remotePipe_Cons using Cons [of None] by simp
qed

lemma remotePipe_sends: "sends (fst (remotePipe header cs)) = withPrelude header (relayedTcp cs)"
proof (induction cs arbitrary: header)
  case Nil
  then show ?case by simp
next
  case (Cons x cs)
  obtain rs c where x: "x = (rs, c)" by (cases x)
  have n: "withPrelude None (relayedTcp cs) = relayedTcp cs"
    by (cases "relayedTcp cs") simp_all
  show ?case
    unfolding x remotePipe_Cons using Cons [of None] n by (cases header) simp_all
qed

lemma remoteSocketToWS_calls:
  "connects (remoteSocketToWS r header retry') =
     (if readable r = [] then (case retry' of None \<Rightarrow> [] | Some calls \<Rightarrow> connects calls) else [])"
  "remoteWrites (remoteSocketToWS r header retry') =
     (if readable r = [] then (case retry' of None \<Rightarrow> [] | Some calls \<Rightarrow> remoteWrites calls) else [])"
  "remoteCloses (remoteSocketToWS r header retry') =
     (if readable r = [] then (case retry' of None \<Rightarrow> [] | Some calls \<Rightarrow> remoteCloses calls) else [])"
  "sends (remoteSocketToWS r header retry') =
     withPrelude header (relayedTcp (readable r)) @
     (if readable r = [] then (case retry' of None \<Rightarrow> [] | Some calls \<Rightarrow> sends calls) else [])"
  using remotePipe_calls [of header "readable r"] remotePipe_sends [of header "readable r"]
  by (simp_all add: remoteSocketToWS_def Let_def case_prod_beta split: option.splits)

lemma retryTarget_hint:
  "retryTarget prxIP a p =
     (if hintHost prxIP = [] then a else hintHost prxIP,
      if hintPort prxIP = [] then PortNumber p else PortString (hintPort prxIP))"
proof -
  have nd: "noDelimiter = (\<lambda>c. c \<notin> set '':=-'')"
    by (simp add: noDelimiter_def fun_eq_iff)
  have h: "at (jsSplit '':=-'' prxIP) 0 = Some (hintHost prxIP)"
    unfolding hintHost_def nd by (rule jsSplit_at_0)
  have p: "at (jsSplit '':=-'' prxIP) 1 =
      (if dropWhile noDelimiter prxIP = [] then None else Some (hintPort prxIP))"
    unfolding hintPort_def nd jsSplit_at_1 by (simp only: drop_Suc drop_0 One_nat_def)
  have e: "dropWhile noDelimiter prxIP = [] \<Longrightarrow> hintPort prxIP = []"
    unfolding hintPort_def by (simp only: drop_Nil takeWhile.simps)
  show ?thesis
    unfolding retryTarget_def Let_def h p orElse_def using e by simp
qed

lemma retry_calls:
  "connects (retry a p raw header prxIP r) = [retryTarget prxIP a p]"
  "remoteWrites (retry a p raw header prxIP r) =
     [(fst (retryTarget prxIP a p), snd (retryTarget prxIP a p), raw)]"
  "remoteCloses (retry a p raw header prxIP r) = []"
  "sends (retry a p raw header prxIP r) =
     (if writable r then withPrelude header (relayedTcp (readable r)) else [])"
  by (simp_all add: retry_def connectAndWrite_def remoteSocketToWS_calls case_prod_beta)

lemma handleTCPOutBound_calls:
  "connects (fst (handleTCPOutBound a p raw header prxIP initial retried)) =
     (a, PortNumber p) #
     (if writable initial \<and> readable initial = [] then [retryTarget prxIP a p] else [])"
  "remoteWrites (fst (handleTCPOutBound a p raw header prxIP initial retried)) =
     (a, PortNumber p, raw) #
     (if writable initial \<and> readable initial = []
      then [(fst (retryTarget prxIP a p), snd (retryTarget prxIP a p), raw)] else [])"
  "remoteCloses (fst (handleTCPOutBound a p raw header prxIP initial retried)) = []"
  "sends (fst (handleTCPOutBound a p raw header prxIP initial retried)) =
     withPrelude header
       (if writable initial then
          (if readable initial = [] then (if writable retried then relayedTcp (readable retried) else [])
           else relayedTcp (readable initial))
        else [])"
  by (simp_all add: handleTCPOutBound_def connectAndWrite_def remoteSocketToWS_calls retry_calls)

lemma udpPipe_calls:
  "connects (udpPipe header cs) = [] \<and> remoteWrites (udpPipe header cs) = [] \<and>
   remoteCloses (udpPipe header cs) = []"
  by (induction header cs rule: udpPipe.induct) (simp_all split: option.splits)

lemma withPrelude_None: "withPrelude None cs = cs"
  by (cases cs) simp_all

lemma udpPipe_sends:
  "sends (udpPipe header cs) =
     withPrelude header (map snd (filter (\<lambda>(readyState, c). readyState = WS_READY_STATE_OPEN) cs))"
  by (induction header cs rule: udpPipe.induct)
     (simp_all add: withPrelude_None blob_def split: option.splits)

lemma handleUDPOutbound_calls:
  "connects (handleUDPOutbound a p c header r) = [(a, PortNumber p)]"
  "remoteWrites (handleUDPOutbound a p c header r) = [(a, PortNumber p, c)]"
  "remoteCloses (handleUDPOutbound a p c header r) = []"
  "sends (handleUDPOutbound a p c header r) = withPrelude header (relayedUdp r)"
  using udpPipe_calls [of header "readable r"]
  by (simp_all add: handleUDPOutbound_def udpPipe_sends relayedUdp_def)

lemma udpPipe_WsClose: "WsClose \<notin> set (udpPipe header cs)"
  by (induction header cs rule: udpPipe.induct) (simp_all split: option.splits)

lemma handleUDPOutbound_WsClose: "WsClose \<notin> set (handleUDPOutbound a p c header r)"
  by (simp add: handleUDPOutbound_def udpPipe_WsClose)

lemma inboundWrite_dns:
  "isDNS st \<Longrightarrow>
     inboundWrite prxIP st i =
       (handleUDPOutbound DNS_SERVER_ADDRESS DNS_SERVER_PORT (chunk i) None (socket1 i), Inr st)"
  by (simp add: inboundWrite_def)

lemma inboundWrite_established:
  "\<not> isDNS st \<Longrightarrow> remoteSocketWrapper st = Some (hostname, p, False) \<Longrightarrow>
     inboundWrite prxIP st i =
       ([RemoteWrite hostname p (chunk i)],
        if writable (socket1 i) then Inr st else Inl NetworkError)"
  by (simp add: inboundWrite_def)

lemma inboundWrite_locked:
  "\<not> isDNS st \<Longrightarrow> remoteSocketWrapper st = Some (hostname, p, True) \<Longrightarrow>
     inboundWrite prxIP st i = ([], Inl TypeError)"
  by (simp add: inboundWrite_def)

lemma inboundWrite_throw:
  "parseHeader (chunk i) = Inl e \<Longrightarrow> inboundWrite prxIP awaitFirst i = ([], Inl e)"
  "parseHeader (chunk i) = Inr (HasError m) \<Longrightarrow>
     inboundWrite prxIP awaitFirst i = ([], Inl (Error m))"
  "parseHeader (chunk i) = Inr (Header h) \<Longrightarrow> isUDP h \<Longrightarrow> portRemote h \<noteq> 53 \<Longrightarrow>
     inboundWrite prxIP awaitFirst i = ([], Inl (Error ''UDP only supports DNS port 53''))"
  by (simp_all add: inboundWrite_def awaitFirst_def)

lemma inboundWrite_udp:
  "parseHeader (chunk i) = Inr (Header h) \<Longrightarrow> isUDP h \<Longrightarrow> portRemote h = 53 \<Longrightarrow>
     inboundWrite prxIP awaitFirst i =
       (handleUDPOutbound DNS_SERVER_ADDRESS DNS_SERVER_PORT (chunk i) (version h) (socket1 i),
        Inr (awaitFirst\<lparr>isDNS := True\<rparr>))"
  by (simp add: inboundWrite_def awaitFirst_def)

lemma inboundWrite_tcp:
  "parseHeader (chunk i) = Inr (Header h) \<Longrightarrow> \<not> isUDP h \<Longrightarrow>
     inboundWrite prxIP awaitFirst i =
       (fst (handleTCPOutBound (addressRemote h) (portRemote h) (rawClientData h) (version h)
               prxIP (socket1 i) (socket2 i)),
        Inr (awaitFirst\<lparr>remoteSocketWrapper :=
               Some (snd (handleTCPOutBound (addressRemote h) (portRemote h) (rawClientData h)
                            (version h) prxIP (socket1 i) (socket2 i)))\<rparr>))"
  by (simp add: inboundWrite_def awaitFirst_def case_prod_beta)

lemma pipeTo_established:
  "\<not> isDNS st \<Longrightarrow> remoteSocketWrapper st = Some v \<Longrightarrow>
     connects (pipeTo prxIP st rest) = [] \<and> sends (pipeTo prxIP st rest) = [] \<and>
     remoteCloses (pipeTo prxIP st rest) = []"
proof (induction rest)
  case Nil
  then show ?case by simp
next
  case (Cons i rest)
  obtain hostname p locked where v: "v = (hostname, p, locked)" by (cases v)
  show ?case
    using Cons by (cases locked) (simp_all add: inboundWrite_established inboundWrite_locked v)
qed

lemma pipeTo_dns:
  "isDNS st \<Longrightarrow>
     sends (pipeTo prxIP st rest) = concat (map (\<lambda>j. relayedUdp (socket1 j)) rest) \<and>
     connects (pipeTo prxIP st rest) =
       map (\<lambda>j. (DNS_SERVER_ADDRESS, PortNumber DNS_SERVER_PORT)) rest \<and>
     remoteCloses (pipeTo prxIP st rest) = []"
proof (induction rest)
  case Nil
  then show ?case by simp
next
  case (Cons i rest)
  then show ?case
    by (simp add: inboundWrite_dns handleUDPOutbound_calls withPrelude_None)
qed

lemma websocketHandler_Cons:
  "websocketHandler prxIP (i # rest) =
     (case inboundWrite prxIP awaitFirst i of
        (effects, Inl e) \<Rightarrow> effects @ safeCloseWebSocket (cancelled i)
      | (effects, Inr st') \<Rightarrow> effects @ pipeTo prxIP st' rest)"
  by (simp add: websocketHandler_def awaitFirst_def)

lemma inboundWrite_remoteCloses: "remoteCloses (fst (inboundWrite prxIP st i)) = []"
  by (simp add: inboundWrite_def handleUDPOutbound_calls handleTCPOutBound_calls case_prod_beta
      split: option.splits sum.splits parsed.splits)

lemma pipeTo_remoteCloses: "remoteCloses (pipeTo prxIP st rest) = []"
proof (induction rest arbitrary: st)
  case Nil
  then show ?case by simp
next
  case (Cons i rest)
  obtain es out where w: "inboundWrite prxIP st i = (es, out)" by (cases "inboundWrite prxIP st i")
  with inboundWrite_remoteCloses [of prxIP st i] have "remoteCloses es = []" by simp
  with w Cons show ?case by (cases out) simp_all
qed

lemma websocketHandler_tcp:
  assumes "parseHeader (chunk i) = Inr (Header h)" "\<not> isUDP h"
  shows "websocketHandler prxIP (i # rest) =
     fst (handleTCPOutBound (addressRemote h) (portRemote h) (rawClientData h) (version h)
            prxIP (socket1 i) (socket2 i)) @
     pipeTo prxIP
       (awaitFirst\<lparr>remoteSocketWrapper :=
          Some (snd (handleTCPOutBound (addressRemote h) (portRemote h) (rawClientData h)
                       (version h) prxIP (socket1 i) (socket2 i)))\<rparr>) rest"
  using assms by (simp add: websocketHandler_Cons inboundWrite_tcp)

lemma pipeTo_after_tcp:
  "connects (pipeTo prxIP (awaitFirst\<lparr>remoteSocketWrapper := Some v\<rparr>) rest) = [] \<and>
   sends (pipeTo prxIP (awaitFirst\<lparr>remoteSocketWrapper := Some v\<rparr>) rest) = []"
  using pipeTo_established [of "awaitFirst\<lparr>remoteSocketWrapper := Some v\<rparr>" v prxIP rest]
  by (simp add: awaitFirst_def)

section \<open>The protocol sniffer\<close>

text \<open>
  C1. For a first chunk that carries the Trojan marker the sniffer answers Trojan; for a
  chunk whose bytes 1 to 16, written as hexadecimal digits grouped 8-4-4-4-12, have the
  shape of a version 4 UUID it should answer VLESS, and Shadowsocks otherwise. The code
  tests the ungrouped digits of \<open>arrayBufferToHex\<close> against the pattern with hyphens, which
  no string of at most 32 digits matches. At the VLESS frame \<open>scenario3\<close> the marker test
  fails, the grouped digits do match the pattern, and the sniffer answers \<open>ss\<close>.
\<close>

theorem C1_sniffer_misses_vless:
  "regexTest uuidV4Pattern (uuidText (slice scenario3 1 17)) \<and>
   \<not> horseTest scenario3 \<and>
   arrayBufferToHex (slice scenario3 1 17) = ''123456789abc4def80123456789abcde'' \<and>
   protocolSniffer scenario3 = ''ss''"
  by (simp add: scenario3_def protocolSniffer_def horseTest_def flashTest_def PROTOCOLS_def
      uuidText_def arrayBufferToHex_def slice_def padStart_def toStringRadix.simps
      uuidV4Pattern_def hexClass_def)

text \<open>
  C10. The sniffer is total: for every buffer it answers one of the three protocol names.
  A buffer of fewer than 62 bytes fails the Trojan test, and a buffer of fewer than 17
  bytes fails the UUID test as well and is answered with Shadowsocks.
\<close>

theorem C10_sniffer_total:
  "protocolSniffer buffer \<in> set PROTOCOLS \<and>
   (length buffer < 62 \<longrightarrow> \<not> horseTest buffer \<and> protocolSniffer buffer \<noteq> PROTOCOLS ! 0) \<and>
   (length buffer < 17 \<longrightarrow>
      \<not> horseTest buffer \<and> \<not> flashTest buffer \<and> protocolSniffer buffer = PROTOCOLS ! 2)"
proof -
  have "protocolSniffer buffer \<in> set PROTOCOLS"
    by (simp add: protocolSniffer_def PROTOCOLS_def)
  moreover have "\<not> horseTest buffer" if "length buffer < 62"
    using that by (simp add: horseTest_def)
  moreover have "\<not> flashTest buffer"
    by (rule flashTest_never)
  ultimately show ?thesis
    by (simp add: protocolSniffer_def PROTOCOLS_def)
qed

theorem C10_sniffer_total_witness:
  "protocolSniffer [] = ''ss'' \<and> protocolSniffer [] \<in> set PROTOCOLS \<and>
   \<not> horseTest [] \<and> \<not> flashTest []"
  using C10_sniffer_total [of "[]"] by (simp add: PROTOCOLS_def)

section \<open>The header decoders\<close>

text \<open>
  C2. When a decoder succeeds, the residual it returns is the frame without the header of
  the wire format, so the header bytes followed by the residual are the frame, and the two
  do not overlap: their lengths add up to the length of the frame. For Shadowsocks the
  whole header lies inside the frame. For Trojan the header counts the two bytes after the
  port.
\<close>

theorem C2_header_then_residual:
  "(readSsHeader frame = Inr (Header h) \<longrightarrow>
      ssHeaderLength frame \<le> length frame \<and>
      rawClientData h = drop (ssHeaderLength frame) frame \<and>
      take (ssHeaderLength frame) frame @ rawClientData h = frame \<and>
      length (take (ssHeaderLength frame) frame) + length (rawClientData h) = length frame) \<and>
   (readFlashHeader frame = Inr (Header h) \<longrightarrow>
      rawClientData h = drop (flashHeaderLength frame) frame \<and>
      take (flashHeaderLength frame) frame @ rawClientData h = frame \<and>
      length (take (flashHeaderLength frame) frame) + length (rawClientData h) = length frame) \<and>
   (readHorseHeader frame = Inr (Header h) \<longrightarrow>
      rawClientData h = drop (horseHeaderLength frame) frame \<and>
      take (horseHeaderLength frame) frame @ rawClientData h = frame \<and>
      length (take (horseHeaderLength frame) frame) + length (rawClientData h) = length frame)"
proof (intro conjI impI)
  assume a: "readSsHeader frame = Inr (Header h)"
  from readSsHeader_Header [OF a]
  have l: "ssHeaderLength frame \<le> length frame"
    and r: "rawClientData h = drop (ssHeaderLength frame) frame"
    by simp_all
  show "ssHeaderLength frame \<le> length frame" by (rule l)
  show "rawClientData h = drop (ssHeaderLength frame) frame" by (rule r)
  show "take (ssHeaderLength frame) frame @ rawClientData h = frame" by (simp add: r)
  show "length (take (ssHeaderLength frame) frame) + length (rawClientData h) = length frame"
    using l by (simp add: r)
next
  assume a: "readFlashHeader frame = Inr (Header h)"
  from readFlashHeader_Header [OF a]
  have r: "rawClientData h = drop (flashHeaderLength frame) frame"
    by simp
  show "rawClientData h = drop (flashHeaderLength frame) frame" by (rule r)
  show "take (flashHeaderLength frame) frame @ rawClientData h = frame" by (simp add: r)
  show "length (take (flashHeaderLength frame) frame) + length (rawClientData h) = length frame"
    by (simp add: r)
next
  assume a: "readHorseHeader frame = Inr (Header h)"
  from readHorseHeader_Header [OF a]
  have r: "rawClientData h = drop (horseHeaderLength frame) frame"
    by simp
  show "rawClientData h = drop (horseHeaderLength frame) frame" by (rule r)
  show "take (horseHeaderLength frame) frame @ rawClientData h = frame" by (simp add: r)
  show "length (take (horseHeaderLength frame) frame) + length (rawClientData h) = length frame"
    by (simp add: r)
qed

theorem C2_header_then_residual_witness:
  "readSsHeader scenario1 =
     Inr (Header \<lparr>addressRemote = ''10.0.0.1'', addressType = Some 1, portRemote = 80,
            rawClientData = [0x48, 0x49], version = None, isUDP = False\<rparr>) \<and>
   take (ssHeaderLength scenario1) scenario1 @ [0x48, 0x49] = scenario1 \<and>
   ssHeaderLength scenario1 = 7 \<and>
   readFlashHeader scenario3 =
     Inr (Header \<lparr>addressRemote = ''foo'', addressType = Some 2, portRemote = 443,
            rawClientData = [0x50, 0x41, 0x59], version = Some [0, 0], isUDP = False\<rparr>) \<and>
   take (flashHeaderLength scenario3) scenario3 @ [0x50, 0x41, 0x59] = scenario3 \<and>
   flashHeaderLength scenario3 = 26 \<and>
   readHorseHeader trojanFrame =
     Inr (Header \<lparr>addressRemote = ''1.2.3.4'', addressType = None, portRemote = 443,
            rawClientData = [0x48, 0x49], version = None, isUDP = False\<rparr>) \<and>
   take (horseHeaderLength trojanFrame) trojanFrame @ [0x48, 0x49] = trojanFrame \<and>
   horseHeaderLength trojanFrame = 68 \<and>
   readSsHeader [0x01, 0x0A, 0x00, 0x00, 0x01, 0x00, 0x50] =
     Inr (Header \<lparr>addressRemote = ''10.0.0.1'', addressType = Some 1, portRemote = 80,
            rawClientData = [], version = None, isUDP = False\<rparr>) \<and>
   drop (ssHeaderLength [0x01, 0x0A, 0x00, 0x00, 0x01, 0x00, 0x50])
     ([0x01, 0x0A, 0x00, 0x00, 0x01, 0x00, 0x50] :: ArrayBuffer) = []"
proof -
  let ?hs = "\<lparr>addressRemote = ''10.0.0.1'', addressType = Some 1, portRemote = 80,
            rawClientData = [0x48, 0x49], version = None, isUDP = False\<rparr>"
  let ?hf = "\<lparr>addressRemote = ''foo'', addressType = Some 2, portRemote = 443,
            rawClientData = [0x50, 0x41, 0x59], version = Some [0, 0], isUDP = False\<rparr>"
  let ?ht = "\<lparr>addressRemote = ''1.2.3.4'', addressType = None, portRemote = 443,
            rawClientData = [0x48, 0x49], version = None, isUDP = False\<rparr>"
  have s: "readSsHeader scenario1 = Inr (Header ?hs)"
    by (simp add: scenario1_def readSsHeader_def getUint8_def ssReturn_def dotted_def slice_def
        sliceFrom_def toStringRadix.simps getUint16_def nanIndex_def)
  have f: "readFlashHeader scenario3 = Inr (Header ?hf)"
    by (simp add: scenario3_def readFlashHeader_def flashReturn_def at_def slice_def
        sliceFrom_def getUint16_def nanIndex_def TextDecoder_decode_def stripBOM_def
        char_of_eq_iff)
  have t: "readHorseHeader trojanFrame = Inr (Header ?ht)"
    by (simp add: trojanFrame_def readHorseHeader_def horseReturn_def getUint8_def dotted_def
        slice_def sliceFrom_def toStringRadix.simps getUint16_def nanIndex_def nth_append)
  let ?e = "[0x01, 0x0A, 0x00, 0x00, 0x01, 0x00, 0x50] :: ArrayBuffer"
  let ?he = "\<lparr>addressRemote = ''10.0.0.1'', addressType = Some 1, portRemote = 80,
            rawClientData = [], version = None, isUDP = False\<rparr>"
  have e: "readSsHeader ?e = Inr (Header ?he)"
    by (simp add: readSsHeader_def getUint8_def ssReturn_def dotted_def slice_def
        sliceFrom_def toStringRadix.simps getUint16_def nanIndex_def)
  have n: "ssHeaderLength scenario1 = 7" "flashHeaderLength scenario3 = 26"
    "horseHeaderLength trojanFrame = 68"
    by (simp_all add: scenario1_def scenario3_def trojanFrame_def ssHeaderLength_def
        flashHeaderLength_def horseHeaderLength_def nth_append)
  from C2_header_then_residual [of scenario1 ?hs] s
  have "take (ssHeaderLength scenario1) scenario1 @ [0x48, 0x49] = scenario1" by simp
  moreover from C2_header_then_residual [of scenario3 ?hf] f
  have "take (flashHeaderLength scenario3) scenario3 @ [0x50, 0x41, 0x59] = scenario3" by simp
  moreover from C2_header_then_residual [of trojanFrame ?ht] t
  have "take (horseHeaderLength trojanFrame) trojanFrame @ [0x48, 0x49] = trojanFrame" by simp
  moreover from C2_header_then_residual [of ?e ?he] e
  have "drop (ssHeaderLength ?e) ?e = []"
    by simp
  ultimately show ?thesis using s f t n e by simp
qed

text \<open>
  C7, as stated, has the Shadowsocks decoder return a header for every frame with a known
  address type and a non-empty address. The buffer \<open>01 01 02 03 04 01\<close> has the type 1
  and the address 1.2.3.4 and ends inside the port: the decoder throws a RangeError.
\<close>

theorem C7_truncated_frame_throws:
  "([0x01, 1, 2, 3, 4, 0x01] :: ArrayBuffer) ! 0 = 1 \<and>
   ssAddress [0x01, 1, 2, 3, 4, 0x01] = ''1.2.3.4'' \<and>
   readSsHeader [0x01, 1, 2, 3, 4, 0x01] = Inl RangeError"
  by (simp add: ssAddress_def readSsHeader_def getUint8_def ssReturn_def dotted_def slice_def
      toStringRadix.simps getUint16_def nanIndex_def)

text \<open>
  C7, amended. The Shadowsocks decoder throws a RangeError on the empty buffer. Otherwise
  it reads the address type at offset 0: 1 is an IPv4 address written \<open>a.b.c.d\<close>, 3 a
  domain behind a length byte, 4 an IPv6 address written as eight groups of lower-case
  hexadecimal digits between colons, without brackets, which is never empty. It answers
  with an error object for any other type and for an empty address. Otherwise it throws a
  RangeError when the buffer ends before the end of the header, and when the buffer holds
  the whole header it returns the address, the big-endian port after the address, the
  rest of the frame as residual, and \<open>isUDP\<close> exactly when the port is 53; and whenever it
  returns a header, the frame is of this form. The frame \<open>01 0A 00 00 01 00 50 48 49\<close>
  gives the address 10.0.0.1, the port 80 and the residual \<open>48 49\<close>.
\<close>

theorem C7_readSsHeader:
  "readSsHeader [] = Inl RangeError \<and>
   (frame \<noteq> [] \<and> frame ! 0 \<noteq> 1 \<and> frame ! 0 \<noteq> 3 \<and> frame ! 0 \<noteq> 4 \<longrightarrow>
      readSsHeader frame =
        Inr (HasError (''Invalid addressType for SS: '' @ template (Some (frame ! 0))))) \<and>
   (frame \<noteq> [] \<and> (frame ! 0 = 1 \<or> frame ! 0 = 3) \<and> ssAddress frame = [] \<longrightarrow>
      readSsHeader frame =
        Inr (HasError (''Destination address empty for SS, address type: '' @
                       template (Some (frame ! 0))))) \<and>
   (frame ! 0 = 4 \<longrightarrow> ssAddress frame \<noteq> []) \<and>
   (frame \<noteq> [] \<and> (frame ! 0 = 1 \<or> frame ! 0 = 3 \<or> frame ! 0 = 4) \<and>
    ssAddress frame \<noteq> [] \<and> length frame < ssHeaderLength frame \<longrightarrow>
      readSsHeader frame = Inl RangeError) \<and>
   (frame \<noteq> [] \<and> (frame ! 0 = 1 \<or> frame ! 0 = 3 \<or> frame ! 0 = 4) \<and>
    ssAddress frame \<noteq> [] \<and> ssHeaderLength frame \<le> length frame \<longrightarrow>
      readSsHeader frame =
        Inr (Header \<lparr>addressRemote = ssAddress frame, addressType = Some (frame ! 0),
               portRemote = be16 frame (ssHeaderLength frame - 2),
               rawClientData = drop (ssHeaderLength frame) frame, version = None,
               isUDP = (be16 frame (ssHeaderLength frame - 2) = 53)\<rparr>)) \<and>
   (readSsHeader frame = Inr (Header h) \<longrightarrow>
      frame \<noteq> [] \<and> (frame ! 0 = 1 \<or> frame ! 0 = 3 \<or> frame ! 0 = 4) \<and>
      ssHeaderLength frame \<le> length frame \<and>
      addressRemote h = ssAddress frame \<and> addressRemote h \<noteq> [] \<and>
      portRemote h = be16 frame (ssHeaderLength frame - 2) \<and>
      rawClientData h = drop (ssHeaderLength frame) frame \<and>
      isUDP h = (portRemote h = 53)) \<and>
   readSsHeader scenario1 =
     Inr (Header \<lparr>addressRemote = ''10.0.0.1'', addressType = Some 1, portRemote = 80,
            rawClientData = [0x48, 0x49], version = None, isUDP = False\<rparr>)"
proof (intro conjI impI)
  show "readSsHeader [] = Inl RangeError"
    by (rule readSsHeader_Nil)
next
  assume "frame \<noteq> [] \<and> frame ! 0 \<noteq> 1 \<and> frame ! 0 \<noteq> 3 \<and> frame ! 0 \<noteq> 4"
  then show "readSsHeader frame =
      Inr (HasError (''Invalid addressType for SS: '' @ template (Some (frame ! 0))))"
    by (simp add: readSsHeader_invalid)
next
  assume "frame \<noteq> [] \<and> (frame ! 0 = 1 \<or> frame ! 0 = 3) \<and> ssAddress frame = []"
  then show "readSsHeader frame =
      Inr (HasError (''Destination address empty for SS, address type: '' @
                     template (Some (frame ! 0))))"
    by (simp add: readSsHeader_empty)
next
  assume "frame ! 0 = 4"
  then show "ssAddress frame \<noteq> []"
    by (rule ssAddress_v6)
next
  assume "frame \<noteq> [] \<and> (frame ! 0 = 1 \<or> frame ! 0 = 3 \<or> frame ! 0 = 4) \<and>
    ssAddress frame \<noteq> [] \<and> length frame < ssHeaderLength frame"
  then show "readSsHeader frame = Inl RangeError"
    by (intro readSsHeader_short) auto
next
  assume "frame \<noteq> [] \<and> (frame ! 0 = 1 \<or> frame ! 0 = 3 \<or> frame ! 0 = 4) \<and>
    ssAddress frame \<noteq> [] \<and> ssHeaderLength frame \<le> length frame"
  then show "readSsHeader frame =
      Inr (Header \<lparr>addressRemote = ssAddress frame, addressType = Some (frame ! 0),
             portRemote = be16 frame (ssHeaderLength frame - 2),
             rawClientData = drop (ssHeaderLength frame) frame, version = None,
             isUDP = (be16 frame (ssHeaderLength frame - 2) = 53)\<rparr>)"
    by (simp add: readSsHeader_complete)
next
  show "readSsHeader scenario1 =
     Inr (Header \<lparr>addressRemote = ''10.0.0.1'', addressType = Some 1, portRemote = 80,
            rawClientData = [0x48, 0x49], version = None, isUDP = False\<rparr>)"
    by (simp add: scenario1_def readSsHeader_def getUint8_def ssReturn_def dotted_def slice_def
        sliceFrom_def toStringRadix.simps getUint16_def nanIndex_def)
qed (use readSsHeader_Header [of frame h] in simp_all)

theorem C7_readSsHeader_witness:
  "readSsHeader [0x02] = Inr (HasError ''Invalid addressType for SS: 2'') \<and>
   readSsHeader [0x03, 0x00, 0x00, 0x35] =
     Inr (HasError ''Destination address empty for SS, address type: 3'') \<and>
   readSsHeader [0x04, 0, 0, 0, 0, 0, 0, 0, 0, 0, 0, 0, 0, 0, 0, 0, 1, 0x00, 0x35] =
     Inr (Header \<lparr>addressRemote = ''0:0:0:0:0:0:0:1'', addressType = Some 4, portRemote = 53,
            rawClientData = [], version = None, isUDP = True\<rparr>) \<and>
   readSsHeader [0x04, 0, 0, 0, 0, 0, 0, 0, 0, 0, 0, 0, 0, 0, 0, 0, 1, 0x00] = Inl RangeError \<and>
   readSsHeader [0x03, 0x03, 0x66, 0x6F] = Inl RangeError \<and>
   ssAddress scenario1 = ''10.0.0.1'' \<and> ssHeaderLength scenario1 = 7 \<and>
   be16 scenario1 5 = 80 \<and> drop 7 scenario1 = [0x48, 0x49]"
proof -
  let ?v6 = "[0x04, 0, 0, 0, 0, 0, 0, 0, 0, 0, 0, 0, 0, 0, 0, 0, 1, 0x00, 0x35] :: ArrayBuffer"
  let ?s6 = "[0x04, 0, 0, 0, 0, 0, 0, 0, 0, 0, 0, 0, 0, 0, 0, 0, 1, 0x00] :: ArrayBuffer"
  let ?sd = "[0x03, 0x03, 0x66, 0x6F] :: ArrayBuffer"
  have a: "ssAddress [0x03, 0x00, 0x00, 0x35] = []"
    by (simp add: ssAddress_def slice_def TextDecoder_decode_def stripBOM_def)
  have b: "ssAddress ?v6 = ''0:0:0:0:0:0:0:1''" "ssHeaderLength ?v6 = 19"
    "be16 ?v6 17 = 53"
    by (simp_all add: ssAddress_def ssHeaderLength_def ipv6Groups_def be16_def
        toStringRadix.simps upt_rec)
  have c: "ssHeaderLength ?s6 = 19" "ssHeaderLength ?sd = 7" "ssAddress ?sd = ''fo''"
    by (simp_all add: ssHeaderLength_def ssAddress_def slice_def TextDecoder_decode_def
        stripBOM_def char_of_eq_iff)
  from C7_readSsHeader [of "[0x02]"]
  have "readSsHeader [0x02] = Inr (HasError ''Invalid addressType for SS: 2'')"
    by (simp add: template_def toStringRadix.simps)
  moreover from C7_readSsHeader [of "[0x03, 0x00, 0x00, 0x35]"] a
  have "readSsHeader [0x03, 0x00, 0x00, 0x35] =
     Inr (HasError ''Destination address empty for SS, address type: 3'')"
    by (simp add: template_def toStringRadix.simps)
  moreover from C7_readSsHeader [of ?v6] b
  have "readSsHeader ?v6 =
     Inr (Header \<lparr>addressRemote = ''0:0:0:0:0:0:0:1'', addressType = Some 4, portRemote = 53,
            rawClientData = [], version = None, isUDP = True\<rparr>)"
    by simp
  moreover from C7_readSsHeader [of ?s6] c
  have "readSsHeader ?s6 = Inl RangeError"
    by simp
  moreover from C7_readSsHeader [of ?sd] c
  have "readSsHeader ?sd = Inl RangeError"
    by simp
  moreover from C7_readSsHeader [of scenario1
      "\<lparr>addressRemote = ''10.0.0.1'', addressType = Some 1, portRemote = 80,
            rawClientData = [0x48, 0x49], version = None, isUDP = False\<rparr>"]
  have "ssAddress scenario1 = ''10.0.0.1'' \<and> ssHeaderLength scenario1 = 7 \<and>
      be16 scenario1 5 = 80 \<and> drop 7 scenario1 = [0x48, 0x49]"
    by (simp add: scenario1_def ssHeaderLength_def)
  ultimately show ?thesis by simp
qed

text \<open>
  C6. The VLESS decoder reads the command at offset 18 + optLen and answers with the
  error object for an unsupported command unless it is 1 or 2. When it returns a header,
  the address type is 1, 2 or 3: an IPv4 address, a domain behind a length byte, or an
  IPv6 address in brackets; the port is the big-endian number after the command, the
  residual is the frame after the address, \<open>isUDP\<close> tells that the command is 2, and the
  response prelude is the first byte of the frame followed by 0. A frame that holds the
  whole header with a supported command, a known address type and a non-empty address is
  decoded so. The frame \<open>scenario3\<close> gives the address foo, the port 443, the residual
  \<open>50 41 59\<close> and the prelude \<open>00 00\<close>.
\<close>

theorem C6_readFlashHeader:
  "(flashCmd frame \<noteq> Some 1 \<and> flashCmd frame \<noteq> Some 2 \<longrightarrow>
      readFlashHeader frame =
        Inr (HasError (''Unsupported VLESS command: '' @ template (flashCmd frame)))) \<and>
   (readFlashHeader frame = Inr (Header h) \<longrightarrow>
      (flashCmd frame = Some 1 \<or> flashCmd frame = Some 2) \<and>
      isUDP h = (flashCmd frame = Some 2) \<and>
      21 + unat (frame ! 17) < length frame \<and>
      (frame ! (21 + unat (frame ! 17)) = 1 \<or> frame ! (21 + unat (frame ! 17)) = 2 \<or>
       frame ! (21 + unat (frame ! 17)) = 3) \<and>
      addressType h = Some (frame ! (21 + unat (frame ! 17))) \<and>
      addressRemote h = flashAddress frame \<and> addressRemote h \<noteq> [] \<and>
      portRemote h = be16 frame (19 + unat (frame ! 17)) \<and>
      rawClientData h = drop (flashHeaderLength frame) frame \<and>
      version h = Some [frame ! 0, 0]) \<and>
   (17 < length frame \<and> (flashCmd frame = Some 1 \<or> flashCmd frame = Some 2) \<and>
    21 + unat (frame ! 17) < length frame \<and>
    (frame ! (21 + unat (frame ! 17)) = 1 \<or> frame ! (21 + unat (frame ! 17)) = 2 \<or>
     frame ! (21 + unat (frame ! 17)) = 3 \<and> 38 + unat (frame ! 17) \<le> length frame) \<and>
    flashAddress frame \<noteq> [] \<longrightarrow>
      readFlashHeader frame =
        Inr (Header \<lparr>addressRemote = flashAddress frame,
               addressType = Some (frame ! (21 + unat (frame ! 17))),
               portRemote = be16 frame (19 + unat (frame ! 17)),
               rawClientData = drop (flashHeaderLength frame) frame,
               version = Some [frame ! 0, 0],
               isUDP = (flashCmd frame = Some 2)\<rparr>)) \<and>
   readFlashHeader scenario3 =
     Inr (Header \<lparr>addressRemote = ''foo'', addressType = Some 2, portRemote = 443,
            rawClientData = [0x50, 0x41, 0x59], version = Some [0, 0], isUDP = False\<rparr>)"
proof (intro conjI impI)
  assume "flashCmd frame \<noteq> Some 1 \<and> flashCmd frame \<noteq> Some 2"
  then show "readFlashHeader frame =
      Inr (HasError (''Unsupported VLESS command: '' @ template (flashCmd frame)))"
    by (simp add: readFlashHeader_cmd)
next
  assume "17 < length frame \<and> (flashCmd frame = Some 1 \<or> flashCmd frame = Some 2) \<and>
    21 + unat (frame ! 17) < length frame \<and>
    (frame ! (21 + unat (frame ! 17)) = 1 \<or> frame ! (21 + unat (frame ! 17)) = 2 \<or>
     frame ! (21 + unat (frame ! 17)) = 3 \<and> 38 + unat (frame ! 17) \<le> length frame) \<and>
    flashAddress frame \<noteq> []"
  then show "readFlashHeader frame =
      Inr (Header \<lparr>addressRemote = flashAddress frame,
             addressType = Some (frame ! (21 + unat (frame ! 17))),
             portRemote = be16 frame (19 + unat (frame ! 17)),
             rawClientData = drop (flashHeaderLength frame) frame,
             version = Some [frame ! 0, 0],
             isUDP = (flashCmd frame = Some 2)\<rparr>)"
    by (intro readFlashHeader_complete) simp_all
next
  show "readFlashHeader scenario3 =
     Inr (Header \<lparr>addressRemote = ''foo'', addressType = Some 2, portRemote = 443,
            rawClientData = [0x50, 0x41, 0x59], version = Some [0, 0], isUDP = False\<rparr>)"
    by (simp add: scenario3_def readFlashHeader_def flashReturn_def at_def slice_def
        sliceFrom_def getUint16_def nanIndex_def TextDecoder_decode_def stripBOM_def
        char_of_eq_iff)
qed (use readFlashHeader_Header [of frame h] in simp_all)

theorem C6_readFlashHeader_witness:
  "readFlashHeader (take 18 scenario3 @ [0x05]) =
     Inr (HasError ''Unsupported VLESS command: 5'') \<and>
   readFlashHeader [] = Inr (HasError ''Unsupported VLESS command: undefined'') \<and>
   flashCmd scenario3 = Some 1 \<and> flashAddress scenario3 = ''foo'' \<and>
   be16 scenario3 19 = 443 \<and> flashHeaderLength scenario3 = 26 \<and>
   drop 26 scenario3 = [0x50, 0x41, 0x59] \<and>
   readFlashHeader
     (take 21 scenario3 @ [0x03, 0, 0, 0, 0, 0, 0, 0, 0, 0, 0, 0, 0, 0, 0, 0, 0]) =
     Inr (Header \<lparr>addressRemote = ''[0:0:0:0:0:0:0:0]'', addressType = Some 3,
            portRemote = 443, rawClientData = [], version = Some [0, 0], isUDP = False\<rparr>)"
proof -
  let ?v6 = "take 21 scenario3 @ [0x03, 0, 0, 0, 0, 0, 0, 0, 0, 0, 0, 0, 0, 0, 0, 0, 0]"
  have c: "flashCmd (take 18 scenario3 @ [0x05]) = Some 5" "flashCmd [] = None"
    by (simp_all add: flashCmd_def scenario3_def)
  have b: "flashCmd ?v6 = Some 1" "?v6 ! 17 = 0" "?v6 ! 21 = 3" "length ?v6 = 38"
    "flashAddress ?v6 = ''[0:0:0:0:0:0:0:0]''" "be16 ?v6 19 = 443"
    "flashHeaderLength ?v6 = 38" "?v6 ! 0 = 0"
    by (simp_all add: flashCmd_def scenario3_def flashAddress_def flashHeaderLength_def
        ipv6Groups_def be16_def toStringRadix.simps upt_rec)
  from C6_readFlashHeader [of "take 18 scenario3 @ [0x05]"] c
  have "readFlashHeader (take 18 scenario3 @ [0x05]) =
      Inr (HasError ''Unsupported VLESS command: 5'')"
    by (simp add: template_def toStringRadix.simps)
  moreover from C6_readFlashHeader [of "[]"] c
  have "readFlashHeader [] = Inr (HasError ''Unsupported VLESS command: undefined'')"
    by (simp add: template_def)
  moreover from C6_readFlashHeader [of scenario3
      "\<lparr>addressRemote = ''foo'', addressType = Some 2, portRemote = 443,
            rawClientData = [0x50, 0x41, 0x59], version = Some [0, 0], isUDP = False\<rparr>"]
  have "flashCmd scenario3 = Some 1 \<and> flashAddress scenario3 = ''foo'' \<and>
      be16 scenario3 19 = 443 \<and> flashHeaderLength scenario3 = 26 \<and>
      drop 26 scenario3 = [0x50, 0x41, 0x59]"
    by (simp add: scenario3_def flashHeaderLength_def flashCmd_def)
  moreover have l: "length scenario3 = 29" by (simp add: scenario3_def)
  from C6_readFlashHeader [of ?v6] b l
  have "readFlashHeader ?v6 =
     Inr (Header \<lparr>addressRemote = ''[0:0:0:0:0:0:0:0]'', addressType = Some 3,
            portRemote = 443, rawClientData = [], version = Some [0, 0], isUDP = False\<rparr>)"
    by auto
  ultimately show ?thesis by simp
qed

section \<open>The tunnel\<close>

text \<open>
  C5. When the header parsed from the first chunk asks for UDP, the tunnel goes on exactly
  when the port is 53: the handler sets \<open>isDNS\<close> and hands the chunk to the DNS bridge.
  For any other port \<open>write\<close> throws before any call is made, so the chunk reaches no
  remote socket, and the run of the handler consists of the safe close of the WebSocket
  alone, whatever chunks follow.
\<close>

theorem C5_udp_only_port_53:
  "parseHeader (chunk i) = Inr (Header h) \<and> isUDP h \<longrightarrow>
     inboundWrite prxIP awaitFirst i =
       (if portRemote h = 53
        then (handleUDPOutbound DNS_SERVER_ADDRESS DNS_SERVER_PORT (chunk i) (version h)
                (socket1 i),
              Inr (awaitFirst\<lparr>isDNS := True\<rparr>))
        else ([], Inl (Error ''UDP only supports DNS port 53''))) \<and>
     websocketHandler prxIP (i # rest) =
       (if portRemote h = 53
        then handleUDPOutbound DNS_SERVER_ADDRESS DNS_SERVER_PORT (chunk i) (version h)
               (socket1 i) @
             pipeTo prxIP (awaitFirst\<lparr>isDNS := True\<rparr>) rest
        else safeCloseWebSocket (cancelled i))"
proof
  assume "parseHeader (chunk i) = Inr (Header h) \<and> isUDP h"
  then have p: "parseHeader (chunk i) = Inr (Header h)" and u: "isUDP h"
    by simp_all
  show "inboundWrite prxIP awaitFirst i =
       (if portRemote h = 53
        then (handleUDPOutbound DNS_SERVER_ADDRESS DNS_SERVER_PORT (chunk i) (version h)
                (socket1 i),
              Inr (awaitFirst\<lparr>isDNS := True\<rparr>))
        else ([], Inl (Error ''UDP only supports DNS port 53''))) \<and>
     websocketHandler prxIP (i # rest) =
       (if portRemote h = 53
        then handleUDPOutbound DNS_SERVER_ADDRESS DNS_SERVER_PORT (chunk i) (version h)
               (socket1 i) @
             pipeTo prxIP (awaitFirst\<lparr>isDNS := True\<rparr>) rest
        else safeCloseWebSocket (cancelled i))"
  proof (cases "portRemote h = 53")
    case True
    with inboundWrite_udp [OF p u True, of prxIP] show ?thesis
      by (simp add: websocketHandler_Cons)
  next
    case False
    with inboundWrite_throw(3) [OF p u False, of prxIP] show ?thesis
      by (simp add: websocketHandler_Cons)
  qed
qed

theorem C5_udp_only_port_53_witness:
  "websocketHandler ''example.org-8443''
     [\<lparr>chunk = trojanUdpFrame 0 53, socket1 = talking, socket2 = silent, cancelled = 1\<rparr>] =
     [Connect ''8.8.8.8'' (PortNumber 53),
      RemoteWrite ''8.8.8.8'' (PortNumber 53) (trojanUdpFrame 0 53),
      WsSend [0x41], WsSend [0x42, 0x43]] \<and>
   websocketHandler ''example.org-8443''
     [\<lparr>chunk = trojanUdpFrame 0 54, socket1 = talking, socket2 = silent, cancelled = 1\<rparr>,
      \<lparr>chunk = [0x48, 0x49], socket1 = talking, socket2 = silent, cancelled = 1\<rparr>] =
     [WsClose] \<and>
   inboundWrite ''example.org-8443'' awaitFirst
     \<lparr>chunk = trojanUdpFrame 0 54, socket1 = talking, socket2 = silent, cancelled = 1\<rparr> =
     ([], Inl (Error ''UDP only supports DNS port 53''))"
proof -
  let ?h = "\<lambda>lo. \<lparr>addressRemote = ''1.2.3.4'', addressType = None, portRemote = unat (lo :: byte),
         rawClientData = [], version = None, isUDP = True\<rparr>"
  have p: "parseHeader (trojanUdpFrame 0 lo) = Inr (Header (?h lo))" for lo
    by (simp add: parseHeader_def protocolSniffer_cases horseTest_def PROTOCOLS_def
        trojanUdpFrame_def at_def readHorseHeader_def horseReturn_def getUint8_def dotted_def
        slice_def sliceFrom_def toStringRadix.simps getUint16_def nanIndex_def nth_append)
  from C5_udp_only_port_53
    [of "\<lparr>chunk = trojanUdpFrame 0 53, socket1 = talking, socket2 = silent, cancelled = 1\<rparr>"
       "?h 53" "''example.org-8443''" "[]"] p [of 53]
  have "websocketHandler ''example.org-8443''
     [\<lparr>chunk = trojanUdpFrame 0 53, socket1 = talking, socket2 = silent, cancelled = 1\<rparr>] =
     [Connect ''8.8.8.8'' (PortNumber 53),
      RemoteWrite ''8.8.8.8'' (PortNumber 53) (trojanUdpFrame 0 53),
      WsSend [0x41], WsSend [0x42, 0x43]]"
    by (simp add: handleUDPOutbound_def talking_def DNS_SERVER_ADDRESS_def DNS_SERVER_PORT_def
        WS_READY_STATE_OPEN_def)
  moreover from C5_udp_only_port_53
    [of "\<lparr>chunk = trojanUdpFrame 0 54, socket1 = talking, socket2 = silent, cancelled = 1\<rparr>"
       "?h 54" "''example.org-8443''"
       "[\<lparr>chunk = [0x48, 0x49], socket1 = talking, socket2 = silent, cancelled = 1\<rparr>]"] p [of 54]
  have "websocketHandler ''example.org-8443''
     [\<lparr>chunk = trojanUdpFrame 0 54, socket1 = talking, socket2 = silent, cancelled = 1\<rparr>,
      \<lparr>chunk = [0x48, 0x49], socket1 = talking, socket2 = silent, cancelled = 1\<rparr>] =
     [WsClose] \<and>
   inboundWrite ''example.org-8443'' awaitFirst
     \<lparr>chunk = trojanUdpFrame 0 54, socket1 = talking, socket2 = silent, cancelled = 1\<rparr> =
     ([], Inl (Error ''UDP only supports DNS port 53''))"
    by (simp add: safeCloseWebSocket_def WS_READY_STATE_OPEN_def)
  ultimately show ?thesis by simp
qed

text \<open>
  C9. When a chunk arrives from the remote socket while the WebSocket is not open, the
  bridge should abort the stream with an error and not send the chunk. The code calls
  \<open>controller.error\<close> and, having no \<open>return\<close> there, goes on to call \<open>send\<close> with the chunk
  (behind the pending prelude); the pipe stops after that chunk. With the ready-state 3
  the sink reports the error and still makes the \<open>send\<close> call. The DNS bridge, on the other
  hand, makes no call for such chunks.
\<close>

theorem C9_send_after_error:
  "remoteSinkWrite 3 None [0x41] =
     ([StreamError ''WebSocket is not open, maybe closed'', WsSend [0x41]], None, True) \<and>
   remoteSocketToWS \<lparr>writable = True, readable = [(3, [0x41]), (3, [0x42])], ending = Closed,
                     settled = 3\<rparr> (Some [0, 0]) None =
     [StreamError ''WebSocket is not open, maybe closed'', WsSend [0, 0, 0x41]] \<and>
   udpPipe (Some [0, 0]) [(3, [0x41]), (3, [0x42])] = []"
  by (simp add: remoteSinkWrite_def remoteSocketToWS_def safeCloseWebSocket_def blob_def
      WS_READY_STATE_OPEN_def WS_READY_STATE_CLOSING_def)

text \<open>
  C3, as stated, has the retry run exactly when the first remote connection produced zero
  bytes before its readable side ended. The socket \<open>refusing\<close> produces no byte and ends,
  but rejects the write of the residual: \<open>handleTCPOutBound\<close> stops at that write, the
  bridge is never started, and the tunnel connects once only.
\<close>

theorem C3_no_retry_after_failed_write:
  "concat (map snd (readable refusing)) = [] \<and>
   connects
     (websocketHandler ''example.org-8443''
        [\<lparr>chunk = scenario6, socket1 = refusing, socket2 = talking, cancelled = 1\<rparr>]) =
     [(''1.2.3.4'', PortNumber 443)]"
proof -
  have p: "parseHeader scenario6 =
      Inr (Header \<lparr>addressRemote = ''1.2.3.4'', addressType = Some 1, portRemote = 443,
             rawClientData = [0x48, 0x49], version = None, isUDP = False\<rparr>)"
    by (simp add: parseHeader_def protocolSniffer_cases horseTest_def PROTOCOLS_def
        scenario6_def readSsHeader_def getUint8_def ssReturn_def dotted_def slice_def
        sliceFrom_def toStringRadix.simps getUint16_def nanIndex_def)
  show ?thesis
    by (simp add: websocketHandler_def inboundWrite_def p handleTCPOutBound_def
        connectAndWrite_def refusing_def)
qed

text \<open>
  C3, amended. \<open>handleTCPOutBound\<close> connects to the parsed address and port and writes
  the residual; it connects once more exactly when that write succeeded and the first
  socket delivered no chunk before its readable side ended, with an error or without,
  whatever the socket of the retry does: to the host of the hint, or the parsed address where the hint has none, and
  the port of the hint, or the parsed port where the hint has none, and it writes the same
  residual there. In a tunnel whose first chunk parses to a TCP header these are all the
  connections of the whole run of the handler, whatever chunks follow.
\<close>

theorem C3_retry_once:
  "connects (fst (handleTCPOutBound a p raw prelude prxIP initial retried)) =
     (a, PortNumber p) #
     (if writable initial \<and> readable initial = []
      then [(if hintHost prxIP = [] then a else hintHost prxIP,
             if hintPort prxIP = [] then PortNumber p else PortString (hintPort prxIP))]
      else []) \<and>
   remoteWrites (fst (handleTCPOutBound a p raw prelude prxIP initial retried)) =
     (a, PortNumber p, raw) #
     (if writable initial \<and> readable initial = []
      then [(if hintHost prxIP = [] then a else hintHost prxIP,
             if hintPort prxIP = [] then PortNumber p else PortString (hintPort prxIP),
             raw)]
      else []) \<and>
   (parseHeader (chunk i) = Inr (Header h) \<and> \<not> isUDP h \<longrightarrow>
      connects (websocketHandler prxIP (i # rest)) =
        (addressRemote h, PortNumber (portRemote h)) #
        (if writable (socket1 i) \<and> readable (socket1 i) = []
         then [(if hintHost prxIP = [] then addressRemote h else hintHost prxIP,
                if hintPort prxIP = [] then PortNumber (portRemote h)
                else PortString (hintPort prxIP))]
         else []))"
proof (intro conjI impI)
  show "connects (fst (handleTCPOutBound a p raw prelude prxIP initial retried)) =
     (a, PortNumber p) #
     (if writable initial \<and> readable initial = []
      then [(if hintHost prxIP = [] then a else hintHost prxIP,
             if hintPort prxIP = [] then PortNumber p else PortString (hintPort prxIP))]
      else [])"
    by (simp add: handleTCPOutBound_calls retryTarget_hint)
  show "remoteWrites (fst (handleTCPOutBound a p raw prelude prxIP initial retried)) =
     (a, PortNumber p, raw) #
     (if writable initial \<and> readable initial = []
      then [(if hintHost prxIP = [] then a else hintHost prxIP,
             if hintPort prxIP = [] then PortNumber p else PortString (hintPort prxIP),
             raw)]
      else [])"
    by (simp add: handleTCPOutBound_calls retryTarget_hint)
next
  assume "parseHeader (chunk i) = Inr (Header h) \<and> \<not> isUDP h"
  then have p: "parseHeader (chunk i) = Inr (Header h)" and u: "\<not> isUDP h"
    by simp_all
  show "connects (websocketHandler prxIP (i # rest)) =
      (addressRemote h, PortNumber (portRemote h)) #
      (if writable (socket1 i) \<and> readable (socket1 i) = []
       then [(if hintHost prxIP = [] then addressRemote h else hintHost prxIP,
              if hintPort prxIP = [] then PortNumber (portRemote h)
              else PortString (hintPort prxIP))]
       else [])"
    by (simp add: websocketHandler_tcp [OF p u] pipeTo_after_tcp handleTCPOutBound_calls
        retryTarget_hint)
qed

theorem C3_retry_once_witness:
  "connects
     (websocketHandler ''example.org-8443''
        [\<lparr>chunk = scenario6, socket1 = silent, socket2 = silent, cancelled = 1\<rparr>,
         \<lparr>chunk = [0x4A], socket1 = silent, socket2 = silent, cancelled = 1\<rparr>]) =
     [(''1.2.3.4'', PortNumber 443), (''example.org'', PortString ''8443'')] \<and>
   remoteWrites
     (fst (handleTCPOutBound ''1.2.3.4'' 443 [0x48, 0x49] None ''example.org-8443'' silent silent)) =
     [(''1.2.3.4'', PortNumber 443, [0x48, 0x49]),
      (''example.org'', PortString ''8443'', [0x48, 0x49])] \<and>
   connects
     (websocketHandler ''example.org-8443''
        [\<lparr>chunk = scenario6, socket1 = talking, socket2 = silent, cancelled = 1\<rparr>]) =
     [(''1.2.3.4'', PortNumber 443)] \<and>
   connects
     (websocketHandler ''example.org-8443''
        [\<lparr>chunk = scenario6, socket1 = refusing, socket2 = silent, cancelled = 1\<rparr>,
         \<lparr>chunk = [0x4A], socket1 = silent, socket2 = silent, cancelled = 1\<rparr>]) =
     [(''1.2.3.4'', PortNumber 443)]"
proof -
  let ?h = "\<lparr>addressRemote = ''1.2.3.4'', addressType = Some 1, portRemote = 443,
         rawClientData = [0x48, 0x49], version = None, isUDP = False\<rparr>"
  have p: "parseHeader scenario6 = Inr (Header ?h)"
    by (simp add: parseHeader_def protocolSniffer_cases horseTest_def PROTOCOLS_def
        scenario6_def readSsHeader_def getUint8_def ssReturn_def dotted_def slice_def
        sliceFrom_def toStringRadix.simps getUint16_def nanIndex_def)
  have hint: "hintHost ''example.org-8443'' = ''example.org''"
    "hintPort ''example.org-8443'' = ''8443''"
    by (simp_all add: hintHost_def hintPort_def noDelimiter_def)
  note c = C3_retry_once
  from c [where i = "\<lparr>chunk = scenario6, socket1 = silent, socket2 = silent, cancelled = 1\<rparr>"
      and h = ?h and prxIP = "''example.org-8443''"
      and rest = "[\<lparr>chunk = [0x4A], socket1 = silent, socket2 = silent, cancelled = 1\<rparr>]",
      THEN conjunct2, THEN conjunct2] p hint
  have "connects
     (websocketHandler ''example.org-8443''
        [\<lparr>chunk = scenario6, socket1 = silent, socket2 = silent, cancelled = 1\<rparr>,
         \<lparr>chunk = [0x4A], socket1 = silent, socket2 = silent, cancelled = 1\<rparr>]) =
     [(''1.2.3.4'', PortNumber 443), (''example.org'', PortString ''8443'')]"
    by (simp add: silent_def)
  moreover from c [where a = "''1.2.3.4''" and p = 443 and raw = "[0x48, 0x49]"
      and prelude = None and prxIP = "''example.org-8443''" and initial = silent
      and retried = silent, THEN conjunct2, THEN conjunct1] hint
  have "remoteWrites
     (fst (handleTCPOutBound ''1.2.3.4'' 443 [0x48, 0x49] None ''example.org-8443'' silent silent)) =
     [(''1.2.3.4'', PortNumber 443, [0x48, 0x49]),
      (''example.org'', PortString ''8443'', [0x48, 0x49])]"
    by (simp add: silent_def)
  moreover from c [where i = "\<lparr>chunk = scenario6, socket1 = talking, socket2 = silent, cancelled = 1\<rparr>"
      and h = ?h and prxIP = "''example.org-8443''" and rest = "[]",
      THEN conjunct2, THEN conjunct2] p
  have "connects
     (websocketHandler ''example.org-8443''
        [\<lparr>chunk = scenario6, socket1 = talking, socket2 = silent, cancelled = 1\<rparr>]) =
     [(''1.2.3.4'', PortNumber 443)]"
    by (simp add: talking_def)
  moreover from c [where i = "\<lparr>chunk = scenario6, socket1 = refusing, socket2 = silent, cancelled = 1\<rparr>"
      and h = ?h and prxIP = "''example.org-8443''"
      and rest = "[\<lparr>chunk = [0x4A], socket1 = silent, socket2 = silent, cancelled = 1\<rparr>]",
      THEN conjunct2, THEN conjunct2] p
  have "connects
     (websocketHandler ''example.org-8443''
        [\<lparr>chunk = scenario6, socket1 = refusing, socket2 = silent, cancelled = 1\<rparr>,
         \<lparr>chunk = [0x4A], socket1 = silent, socket2 = silent, cancelled = 1\<rparr>]) =
     [(''1.2.3.4'', PortNumber 443)]"
    by (simp add: refusing_def)
  ultimately show ?thesis by simp
qed

text \<open>
  C4. The frames sent to the client are the relayed payloads of the remote side, unchanged
  but for the response prelude in front of the first of them, in one frame with it. This
  holds for \<open>handleTCPOutBound\<close>, where the payloads are those of the socket of the retry
  when the first socket delivered nothing, for \<open>handleUDPOutbound\<close>, and for the whole run
  of the handler on either path: later client chunks add no frame on the TCP path, and on
  the DNS path they add the payloads of their own sockets without a prelude. Only the
  VLESS decoder returns a prelude, the first byte of the frame followed by 0.
\<close>

theorem C4_prelude_once:
  "sends (fst (handleTCPOutBound a p raw prelude prxIP initial retried)) =
     withPrelude prelude (relayedTcpPath initial retried) \<and>
   sends (handleUDPOutbound a' p' c prelude r) = withPrelude prelude (relayedUdp r) \<and>
   (parseHeader (chunk i) = Inr (Header h) \<and> \<not> isUDP h \<longrightarrow>
      sends (websocketHandler prxIP (i # rest)) =
        withPrelude (version h) (relayedTcpPath (socket1 i) (socket2 i))) \<and>
   (parseHeader (chunk i) = Inr (Header h) \<and> isUDP h \<and> portRemote h = 53 \<longrightarrow>
      sends (websocketHandler prxIP (i # rest)) =
        withPrelude (version h) (relayedUdp (socket1 i)) @
        concat (map (\<lambda>j. relayedUdp (socket1 j)) rest)) \<and>
   (readFlashHeader frame = Inr (Header h') \<longrightarrow> version h' = Some [frame ! 0, 0]) \<and>
   (readSsHeader frame = Inr (Header h') \<longrightarrow> version h' = None) \<and>
   (readHorseHeader frame = Inr (Header h') \<longrightarrow> version h' = None)"
proof (intro conjI impI)
  show "sends (fst (handleTCPOutBound a p raw prelude prxIP initial retried)) =
     withPrelude prelude (relayedTcpPath initial retried)"
    by (simp add: handleTCPOutBound_calls relayedTcpPath_def)
  show "sends (handleUDPOutbound a' p' c prelude r) = withPrelude prelude (relayedUdp r)"
    by (simp add: handleUDPOutbound_calls)
next
  assume "parseHeader (chunk i) = Inr (Header h) \<and> \<not> isUDP h"
  then show "sends (websocketHandler prxIP (i # rest)) =
      withPrelude (version h) (relayedTcpPath (socket1 i) (socket2 i))"
    by (simp add: websocketHandler_tcp pipeTo_after_tcp handleTCPOutBound_calls
        relayedTcpPath_def)
next
  assume "parseHeader (chunk i) = Inr (Header h) \<and> isUDP h \<and> portRemote h = 53"
  then show "sends (websocketHandler prxIP (i # rest)) =
      withPrelude (version h) (relayedUdp (socket1 i)) @
      concat (map (\<lambda>j. relayedUdp (socket1 j)) rest)"
    using pipeTo_dns [of "awaitFirst\<lparr>isDNS := True\<rparr>" prxIP rest]
    by (simp add: websocketHandler_Cons inboundWrite_udp handleUDPOutbound_calls)
next
  assume "readFlashHeader frame = Inr (Header h')"
  from readFlashHeader_Header [OF this] show "version h' = Some [frame ! 0, 0]" by simp
next
  assume "readSsHeader frame = Inr (Header h')"
  from readSsHeader_Header [OF this] show "version h' = None" by simp
next
  assume "readHorseHeader frame = Inr (Header h')"
  from readHorseHeader_Header [OF this] show "version h' = None" by simp
qed

theorem C4_prelude_once_witness:
  "sends (fst (handleTCPOutBound ''1.2.3.4'' 443 [0x48, 0x49] (Some [0, 0]) ''example.org-8443''
                 silent talking)) =
     [[0, 0, 0x41], [0x42, 0x43]] \<and>
   sends (websocketHandler ''example.org-8443''
            [\<lparr>chunk = scenario6, socket1 = talking, socket2 = silent, cancelled = 1\<rparr>,
             \<lparr>chunk = [0x4A], socket1 = silent, socket2 = silent, cancelled = 1\<rparr>]) =
     [[0x41], [0x42, 0x43]] \<and>
   sends (websocketHandler ''example.org-8443''
            [\<lparr>chunk = trojanUdpFrame 0 53, socket1 = silent, socket2 = silent, cancelled = 1\<rparr>,
             \<lparr>chunk = [0x4A], socket1 = talking, socket2 = silent, cancelled = 1\<rparr>]) =
     [[0x41], [0x42, 0x43]] \<and>
   version \<lparr>addressRemote = ''foo'', addressType = Some 2, portRemote = 443,
            rawClientData = [0x50, 0x41, 0x59], version = Some [0, 0], isUDP = False\<rparr> =
     Some [scenario3 ! 0, 0]"
proof -
  let ?h6 = "\<lparr>addressRemote = ''1.2.3.4'', addressType = Some 1, portRemote = 443,
         rawClientData = [0x48, 0x49], version = None, isUDP = False\<rparr>"
  let ?hu = "\<lparr>addressRemote = ''1.2.3.4'', addressType = None, portRemote = 53,
         rawClientData = [], version = None, isUDP = True\<rparr>"
  let ?hf = "\<lparr>addressRemote = ''foo'', addressType = Some 2, portRemote = 443,
            rawClientData = [0x50, 0x41, 0x59], version = Some [0, 0], isUDP = False\<rparr>"
  have p6: "parseHeader scenario6 = Inr (Header ?h6)"
    by (simp add: parseHeader_def protocolSniffer_cases horseTest_def PROTOCOLS_def
        scenario6_def readSsHeader_def getUint8_def ssReturn_def dotted_def slice_def
        sliceFrom_def toStringRadix.simps getUint16_def nanIndex_def)
  have pu: "parseHeader (trojanUdpFrame 0 53) = Inr (Header ?hu)"
    by (simp add: parseHeader_def protocolSniffer_cases horseTest_def PROTOCOLS_def
        trojanUdpFrame_def at_def readHorseHeader_def horseReturn_def getUint8_def dotted_def
        slice_def sliceFrom_def toStringRadix.simps getUint16_def nanIndex_def nth_append)
  have f: "readFlashHeader scenario3 = Inr (Header ?hf)"
    by (simp add: scenario3_def readFlashHeader_def flashReturn_def at_def slice_def
        sliceFrom_def getUint16_def nanIndex_def TextDecoder_decode_def stripBOM_def
        char_of_eq_iff)
  have r: "relayedTcpPath silent talking = [[0x41], [0x42, 0x43]]"
    "relayedTcpPath talking silent = [[0x41], [0x42, 0x43]]"
    "relayedUdp silent = []" "relayedUdp talking = [[0x41], [0x42, 0x43]]"
    by (simp_all add: relayedTcpPath_def relayedUdp_def silent_def talking_def
        WS_READY_STATE_OPEN_def)
  from C4_prelude_once
    [where a = "''1.2.3.4''" and p = 443 and raw = "[0x48, 0x49]" and prelude = "Some [0, 0]"
       and prxIP = "''example.org-8443''" and initial = silent and retried = talking] r
  have "sends (fst (handleTCPOutBound ''1.2.3.4'' 443 [0x48, 0x49] (Some [0, 0])
                      ''example.org-8443'' silent talking)) =
     [[0, 0, 0x41], [0x42, 0x43]]"
    by simp
  moreover from C4_prelude_once
    [where i = "\<lparr>chunk = scenario6, socket1 = talking, socket2 = silent, cancelled = 1\<rparr>"
       and h = ?h6 and prxIP = "''example.org-8443''"
       and rest = "[\<lparr>chunk = [0x4A], socket1 = silent, socket2 = silent, cancelled = 1\<rparr>]"]
    p6 r
  have "sends (websocketHandler ''example.org-8443''
            [\<lparr>chunk = scenario6, socket1 = talking, socket2 = silent, cancelled = 1\<rparr>,
             \<lparr>chunk = [0x4A], socket1 = silent, socket2 = silent, cancelled = 1\<rparr>]) =
     [[0x41], [0x42, 0x43]]"
    by simp
  moreover from C4_prelude_once
    [where i = "\<lparr>chunk = trojanUdpFrame 0 53, socket1 = silent, socket2 = silent,
                  cancelled = 1\<rparr>"
       and h = ?hu and prxIP = "''example.org-8443''"
       and rest = "[\<lparr>chunk = [0x4A], socket1 = talking, socket2 = silent, cancelled = 1\<rparr>]"]
    pu r
  have "sends (websocketHandler ''example.org-8443''
            [\<lparr>chunk = trojanUdpFrame 0 53, socket1 = silent, socket2 = silent, cancelled = 1\<rparr>,
             \<lparr>chunk = [0x4A], socket1 = talking, socket2 = silent, cancelled = 1\<rparr>]) =
     [[0x41], [0x42, 0x43]]"
    by simp
  moreover from C4_prelude_once [where frame = scenario3 and h' = ?hf] f
  have "version ?hf = Some [scenario3 ! 0, 0]"
    by simp
  ultimately show ?thesis by simp
qed

text \<open>
  C8, as stated, asks that a fatal error closes the WebSocket and the remote socket. When
  the first remote socket ends with an error before any byte, the handler closes the
  WebSocket, connects the socket of the retry, and closes no remote socket.
\<close>

theorem C8_remote_socket_not_closed:
  "websocketHandler ''example.org-8443''
     [\<lparr>chunk = scenario6, socket1 = broken, socket2 = silent, cancelled = 1\<rparr>] =
     [Connect ''1.2.3.4'' (PortNumber 443),
      RemoteWrite ''1.2.3.4'' (PortNumber 443) [0x48, 0x49],
      WsClose,
      Connect ''example.org'' (PortString ''8443''),
      RemoteWrite ''example.org'' (PortString ''8443'') [0x48, 0x49],
      WsClose] \<and>
   remoteCloses
     (websocketHandler ''example.org-8443''
        [\<lparr>chunk = scenario6, socket1 = broken, socket2 = silent, cancelled = 1\<rparr>]) = []"
proof -
  have p: "parseHeader scenario6 =
      Inr (Header \<lparr>addressRemote = ''1.2.3.4'', addressType = Some 1, portRemote = 443,
             rawClientData = [0x48, 0x49], version = None, isUDP = False\<rparr>)"
    by (simp add: parseHeader_def protocolSniffer_cases horseTest_def PROTOCOLS_def
        scenario6_def readSsHeader_def getUint8_def ssReturn_def dotted_def slice_def
        sliceFrom_def toStringRadix.simps getUint16_def nanIndex_def)
  have t: "retryTarget ''example.org-8443'' ''1.2.3.4'' 443 = (''example.org'', PortString ''8443'')"
    by (simp add: retryTarget_hint hintHost_def hintPort_def noDelimiter_def)
  show ?thesis
    by (simp add: websocketHandler_def inboundWrite_def p handleTCPOutBound_def
        connectAndWrite_def remoteSocketToWS_def retry_def t safeCloseWebSocket_def broken_def
        silent_def WS_READY_STATE_OPEN_def)
qed

text \<open>
  C8, amended. \<open>safeCloseWebSocket\<close> calls \<open>close\<close> on the WebSocket exactly when its
  ready-state is OPEN or CLOSING, and it is the only thing the handler does on a fatal
  error:

  \<^item> when handling the first chunk throws (an exception of the decoder, an error object of
    the decoder such as an unsupported command, or UDP on a port other than 53) the run of
    the handler is this safe close alone;
  \<^item> when a write to the established remote socket fails, the safe close follows that
    write;
  \<^item> when the writable side of the established remote socket is still locked, because the
    write of the residual was rejected, the next chunk is not written at all and the safe
    close runs alone; so a tunnel whose first write is rejected connects, attempts that
    write, and runs the safe close when the second chunk arrives;
  \<^item> when the remote readable side of the TCP bridge \<open>remoteSocketToWS\<close> ends with an
    error before any chunk, the bridge runs the safe close before anything else.

  The DNS bridge \<open>handleUDPOutbound\<close> catches and logs every error of its socket and never
  closes the WebSocket. No run of the handler closes a remote socket.
\<close>

theorem C8_fatal_error_closes_websocket:
  "safeCloseWebSocket readyState =
     (if readyState = 1 \<or> readyState = 2 then [WsClose] else []) \<and>
   (parseHeader (chunk i) = Inl e \<or> parseHeader (chunk i) = Inr (HasError m) \<or>
    parseHeader (chunk i) = Inr (Header h) \<and> isUDP h \<and> portRemote h \<noteq> 53 \<longrightarrow>
      websocketHandler prxIP (i # rest) = safeCloseWebSocket (cancelled i)) \<and>
   (\<not> isDNS st \<and> remoteSocketWrapper st = Some (hostname, p, False) \<and>
    \<not> writable (socket1 i) \<longrightarrow>
      pipeTo prxIP st (i # rest) =
        RemoteWrite hostname p (chunk i) # safeCloseWebSocket (cancelled i)) \<and>
   (\<not> isDNS st \<and> remoteSocketWrapper st = Some (hostname, p, True) \<longrightarrow>
      pipeTo prxIP st (i # rest) = safeCloseWebSocket (cancelled i)) \<and>
   (parseHeader (chunk i) = Inr (Header h) \<and> \<not> isUDP h \<and> \<not> writable (socket1 i) \<longrightarrow>
      websocketHandler prxIP (i # j # rest) =
        [Connect (addressRemote h) (PortNumber (portRemote h)),
         RemoteWrite (addressRemote h) (PortNumber (portRemote h)) (rawClientData h)] @
        safeCloseWebSocket (cancelled j)) \<and>
   (readable r = [] \<and> ending r = Errored \<longrightarrow>
      remoteSocketToWS r responseHeader retry' =
        safeCloseWebSocket (settled r) @ (case retry' of None \<Rightarrow> [] | Some calls \<Rightarrow> calls)) \<and>
   WsClose \<notin> set (handleUDPOutbound targetAddress targetPort udpChunk responseHeader r) \<and>
   remoteCloses (websocketHandler prxIP inbounds) = []"
proof (intro conjI impI)
  show "safeCloseWebSocket readyState =
     (if readyState = 1 \<or> readyState = 2 then [WsClose] else [])"
    by (simp add: safeCloseWebSocket_def WS_READY_STATE_OPEN_def WS_READY_STATE_CLOSING_def)
next
  assume "parseHeader (chunk i) = Inl e \<or> parseHeader (chunk i) = Inr (HasError m) \<or>
    parseHeader (chunk i) = Inr (Header h) \<and> isUDP h \<and> portRemote h \<noteq> 53"
  then show "websocketHandler prxIP (i # rest) = safeCloseWebSocket (cancelled i)"
    by (auto simp: websocketHandler_Cons inboundWrite_throw)
next
  assume "\<not> isDNS st \<and> remoteSocketWrapper st = Some (hostname, p, False) \<and>
    \<not> writable (socket1 i)"
  then show "pipeTo prxIP st (i # rest) =
      RemoteWrite hostname p (chunk i) # safeCloseWebSocket (cancelled i)"
    by (simp add: inboundWrite_established)
next
  assume "\<not> isDNS st \<and> remoteSocketWrapper st = Some (hostname, p, True)"
  then show "pipeTo prxIP st (i # rest) = safeCloseWebSocket (cancelled i)"
    by (simp add: inboundWrite_locked)
next
  assume "parseHeader (chunk i) = Inr (Header h) \<and> \<not> isUDP h \<and> \<not> writable (socket1 i)"
  then have ph: "parseHeader (chunk i) = Inr (Header h)" and u: "\<not> isUDP h"
    and w: "\<not> writable (socket1 i)"
    by simp_all
  let ?st = "awaitFirst\<lparr>remoteSocketWrapper :=
      Some (addressRemote h, PortNumber (portRemote h), True)\<rparr>"
  have "inboundWrite prxIP ?st j = ([], Inl TypeError)"
    by (rule inboundWrite_locked [where hostname = "addressRemote h"
          and p = "PortNumber (portRemote h)"]) (simp_all add: awaitFirst_def)
  then have "pipeTo prxIP ?st (j # rest) = safeCloseWebSocket (cancelled j)"
    by simp
  with w show "websocketHandler prxIP (i # j # rest) =
      [Connect (addressRemote h) (PortNumber (portRemote h)),
       RemoteWrite (addressRemote h) (PortNumber (portRemote h)) (rawClientData h)] @
      safeCloseWebSocket (cancelled j)"
    by (simp add: websocketHandler_tcp [OF ph u] handleTCPOutBound_def connectAndWrite_def
        del: pipeTo.simps)
next
  assume "readable r = [] \<and> ending r = Errored"
  then show "remoteSocketToWS r responseHeader retry' =
      safeCloseWebSocket (settled r) @ (case retry' of None \<Rightarrow> [] | Some calls \<Rightarrow> calls)"
    by (simp add: remoteSocketToWS_def)
next
  show "WsClose \<notin> set (handleUDPOutbound targetAddress targetPort udpChunk responseHeader r)"
    by (rule handleUDPOutbound_WsClose)
next
  show "remoteCloses (websocketHandler prxIP inbounds) = []"
    by (simp add: websocketHandler_def pipeTo_remoteCloses)
qed

theorem C8_fatal_error_closes_websocket_witness:
  "websocketHandler ''example.org-8443''
     [\<lparr>chunk = scenario3, socket1 = talking, socket2 = silent, cancelled = 1\<rparr>,
      \<lparr>chunk = [0x4A], socket1 = talking, socket2 = silent, cancelled = 1\<rparr>] = [WsClose] \<and>
   websocketHandler ''example.org-8443''
     [\<lparr>chunk = [], socket1 = talking, socket2 = silent, cancelled = 2\<rparr>] = [WsClose] \<and>
   websocketHandler ''example.org-8443''
     [\<lparr>chunk = trojanUdpFrame 0 54, socket1 = talking, socket2 = silent, cancelled = 3\<rparr>] = [] \<and>
   pipeTo ''example.org-8443''
     \<lparr>isDNS = False, remoteSocketWrapper = Some (''1.2.3.4'', PortNumber 443, False)\<rparr>
     [\<lparr>chunk = [0x4A], socket1 = refusing, socket2 = silent, cancelled = 1\<rparr>] =
     [RemoteWrite ''1.2.3.4'' (PortNumber 443) [0x4A], WsClose] \<and>
   pipeTo ''example.org-8443''
     \<lparr>isDNS = False, remoteSocketWrapper = Some (''1.2.3.4'', PortNumber 443, True)\<rparr>
     [\<lparr>chunk = [0x4A], socket1 = talking, socket2 = silent, cancelled = 1\<rparr>] = [WsClose] \<and>
   websocketHandler ''example.org-8443''
     [\<lparr>chunk = scenario6, socket1 = refusing, socket2 = silent, cancelled = 1\<rparr>,
      \<lparr>chunk = [0x4A], socket1 = talking, socket2 = silent, cancelled = 1\<rparr>] =
     [Connect ''1.2.3.4'' (PortNumber 443),
      RemoteWrite ''1.2.3.4'' (PortNumber 443) [0x48, 0x49],
      WsClose] \<and>
   remoteSocketToWS broken None None = [WsClose]"
proof -
  have p3: "parseHeader scenario3 = Inr (HasError ''Invalid addressType for SS: 0'')"
    by (simp add: parseHeader_def protocolSniffer_cases horseTest_def PROTOCOLS_def
        scenario3_def readSsHeader_def getUint8_def template_def toStringRadix.simps)
  have p0: "parseHeader [] = Inl RangeError"
    by (simp add: parseHeader_def protocolSniffer_cases horseTest_def PROTOCOLS_def
        readSsHeader_def getUint8_def)
  have pu: "parseHeader (trojanUdpFrame 0 54) =
      Inr (Header \<lparr>addressRemote = ''1.2.3.4'', addressType = None, portRemote = 54,
             rawClientData = [], version = None, isUDP = True\<rparr>)"
    by (simp add: parseHeader_def protocolSniffer_cases horseTest_def PROTOCOLS_def
        trojanUdpFrame_def at_def readHorseHeader_def horseReturn_def getUint8_def dotted_def
        slice_def sliceFrom_def toStringRadix.simps getUint16_def nanIndex_def nth_append)
  have p6: "parseHeader scenario6 =
      Inr (Header \<lparr>addressRemote = ''1.2.3.4'', addressType = Some 1, portRemote = 443,
             rawClientData = [0x48, 0x49], version = None, isUDP = False\<rparr>)"
    by (simp add: parseHeader_def protocolSniffer_cases horseTest_def PROTOCOLS_def
        scenario6_def readSsHeader_def getUint8_def ssReturn_def dotted_def slice_def
        sliceFrom_def toStringRadix.simps getUint16_def nanIndex_def)
  note c = C8_fatal_error_closes_websocket
  have s1: "safeCloseWebSocket 1 = [WsClose]" and s2: "safeCloseWebSocket 2 = [WsClose]"
    and s3: "safeCloseWebSocket 3 = []"
    using c [where readyState = 1, THEN conjunct1] c [where readyState = 2, THEN conjunct1]
      c [where readyState = 3, THEN conjunct1]
    by simp_all
  from c [where i = "\<lparr>chunk = scenario3, socket1 = talking, socket2 = silent, cancelled = 1\<rparr>"
      and m = "''Invalid addressType for SS: 0''" and prxIP = "''example.org-8443''"
      and rest = "[\<lparr>chunk = [0x4A], socket1 = talking, socket2 = silent, cancelled = 1\<rparr>]",
      THEN conjunct2, THEN conjunct1] p3 s1
  have "websocketHandler ''example.org-8443''
     [\<lparr>chunk = scenario3, socket1 = talking, socket2 = silent, cancelled = 1\<rparr>,
      \<lparr>chunk = [0x4A], socket1 = talking, socket2 = silent, cancelled = 1\<rparr>] = [WsClose]"
    by simp
  moreover from c [where i = "\<lparr>chunk = [], socket1 = talking, socket2 = silent, cancelled = 2\<rparr>"
      and e = RangeError and prxIP = "''example.org-8443''" and rest = "[]",
      THEN conjunct2, THEN conjunct1] p0 s2
  have "websocketHandler ''example.org-8443''
     [\<lparr>chunk = [], socket1 = talking, socket2 = silent, cancelled = 2\<rparr>] = [WsClose]"
    by simp
  moreover from c [where i = "\<lparr>chunk = trojanUdpFrame 0 54, socket1 = talking, socket2 = silent,
                               cancelled = 3\<rparr>"
      and h = "\<lparr>addressRemote = ''1.2.3.4'', addressType = None, portRemote = 54,
             rawClientData = [], version = None, isUDP = True\<rparr>"
      and prxIP = "''example.org-8443''" and rest = "[]", THEN conjunct2, THEN conjunct1] pu s3
  have "websocketHandler ''example.org-8443''
     [\<lparr>chunk = trojanUdpFrame 0 54, socket1 = talking, socket2 = silent, cancelled = 3\<rparr>] = []"
    by simp
  moreover from c [where st = "\<lparr>isDNS = False,
                                 remoteSocketWrapper = Some (''1.2.3.4'', PortNumber 443, False)\<rparr>"
      and hostname = "''1.2.3.4''" and p = "PortNumber 443"
      and i = "\<lparr>chunk = [0x4A], socket1 = refusing, socket2 = silent, cancelled = 1\<rparr>"
      and prxIP = "''example.org-8443''" and rest = "[]",
      THEN conjunct2, THEN conjunct2, THEN conjunct1] s1
  have "pipeTo ''example.org-8443''
     \<lparr>isDNS = False, remoteSocketWrapper = Some (''1.2.3.4'', PortNumber 443, False)\<rparr>
     [\<lparr>chunk = [0x4A], socket1 = refusing, socket2 = silent, cancelled = 1\<rparr>] =
     [RemoteWrite ''1.2.3.4'' (PortNumber 443) [0x4A], WsClose]"
    by (simp add: refusing_def del: pipeTo.simps)
  moreover from c [where st = "\<lparr>isDNS = False,
                                 remoteSocketWrapper = Some (''1.2.3.4'', PortNumber 443, True)\<rparr>"
      and hostname = "''1.2.3.4''" and p = "PortNumber 443"
      and i = "\<lparr>chunk = [0x4A], socket1 = talking, socket2 = silent, cancelled = 1\<rparr>"
      and prxIP = "''example.org-8443''" and rest = "[]",
      THEN conjunct2, THEN conjunct2, THEN conjunct2, THEN conjunct1] s1
  have "pipeTo ''example.org-8443''
     \<lparr>isDNS = False, remoteSocketWrapper = Some (''1.2.3.4'', PortNumber 443, True)\<rparr>
     [\<lparr>chunk = [0x4A], socket1 = talking, socket2 = silent, cancelled = 1\<rparr>] = [WsClose]"
    by (simp del: pipeTo.simps)
  moreover from c [where i = "\<lparr>chunk = scenario6, socket1 = refusing, socket2 = silent,
                               cancelled = 1\<rparr>"
      and h = "\<lparr>addressRemote = ''1.2.3.4'', addressType = Some 1, portRemote = 443,
             rawClientData = [0x48, 0x49], version = None, isUDP = False\<rparr>"
      and j = "\<lparr>chunk = [0x4A], socket1 = talking, socket2 = silent, cancelled = 1\<rparr>"
      and prxIP = "''example.org-8443''" and rest = "[]",
      THEN conjunct2, THEN conjunct2, THEN conjunct2, THEN conjunct2, THEN conjunct1] p6 s1
  have "websocketHandler ''example.org-8443''
     [\<lparr>chunk = scenario6, socket1 = refusing, socket2 = silent, cancelled = 1\<rparr>,
      \<lparr>chunk = [0x4A], socket1 = talking, socket2 = silent, cancelled = 1\<rparr>] =
     [Connect ''1.2.3.4'' (PortNumber 443),
      RemoteWrite ''1.2.3.4'' (PortNumber 443) [0x48, 0x49],
      WsClose]"
    by (simp add: refusing_def)
  moreover from c [where r = broken and responseHeader = None and retry' = None,
      THEN conjunct2, THEN conjunct2, THEN conjunct2, THEN conjunct2, THEN conjunct2,
      THEN conjunct1] s1
  have "remoteSocketToWS broken None None = [WsClose]"
    by (simp add: broken_def)
  ultimately show ?thesis by simp
qed

end
